theory Spec2Isabelle
  imports Complex_Main "HOL-Library.Product_Lexorder"
begin

section \<open>The diagram model of the link editor\<close>

text \<open>
  The editor (\<^verbatim>\<open>plink_src/editor.py\<close>) keeps Python objects that refer to each other:
  vertices, arrows and crossings.  Objects are modelled by handles into a store
  (\<open>vheap\<close>, \<open>aheap\<close>); a list such as \<^verbatim>\<open>self.Vertices\<close> is a list of handles.
  Coordinates are Python floats; they are modelled by exact rationals.
\<close>

type_synonym vid = nat
type_synonym aid = nat
type_synonym point = "rat \<times> rat"
type_synonym segment = "point \<times> point"

record vertex =
  v_x :: rat
  v_y :: rat
  v_color :: string
  in_arrow :: "aid option"
  out_arrow :: "aid option"

record arrow =
  a_start :: vid
  a_end :: vid
  a_color :: string

text \<open>
  A crossing object: \<open>c_id\<close> is its identity, \<open>c_loc\<close> the pair \<^verbatim>\<open>(x, y)\<close> set by
  \<^verbatim>\<open>locate()\<close>, \<open>None\<close> when both are \<^verbatim>\<open>None\<close>.
\<close>

record crossing =
  c_id :: nat
  over :: aid
  under :: aid
  is_virtual :: bool
  c_loc :: "point option"

datatype estate = start_state | drawing_state | dragging_state

datatype style = pl | smooth | both

datatype exn = ValueError | AttributeError | IndexError | UnboundLocalError | AssertionError

record editor =
  vheap :: "vid \<Rightarrow> vertex"
  aheap :: "aid \<Rightarrow> arrow"
  vnext :: vid
  anext :: aid
  cnext :: nat
  Vertices :: "vid list"
  Arrows :: "aid list"
  Crossings :: "crossing list"
  CrossPoints :: "point list"
  ActiveVertex :: "vid option"
  state :: estate
  has_focus :: bool
  style_var :: style
  lock_var :: bool
  vertex_mode :: bool
  under_mode :: bool
  r1_mode :: bool
  r2_mode :: bool
  r3_mode :: bool
  r2_crossings :: "point list"
  r3_crossings :: "point list"
  r3_helper_tuple :: "bool option"
  saved_crossing_data :: "(nat list \<times> nat list) option"
  cursor_attached :: bool
  cursorx :: rat
  cursory :: rat
  lock_error :: "point option"
  alerts :: nat
  warnings :: "string list"
  palette :: "string list"

text \<open>
  Outcome of a handler: it returns, or an exception escapes and leaves the editor
  in the state reached so far.
\<close>

datatype 'a res = Ok 'a | Raise exn editor

definition bind_res :: "'a res \<Rightarrow> ('a \<Rightarrow> 'b res) \<Rightarrow> 'b res" where
  "bind_res r f = (case r of Ok x \<Rightarrow> f x | Raise e ed \<Rightarrow> Raise e ed)"

fun for_each :: "('a \<Rightarrow> editor \<Rightarrow> editor res) \<Rightarrow> 'a list \<Rightarrow> editor \<Rightarrow> editor res" where
  "for_each f [] ed = Ok ed"
| "for_each f (x # xs) ed = bind_res (f x ed) (for_each f xs)"


section \<open>Collaborators that are not part of the editor module\<close>

text \<open>
  \<^verbatim>\<open>editor.py\<close> imports the classes \<^verbatim>\<open>Vertex\<close>, \<^verbatim>\<open>Arrow\<close>, \<^verbatim>\<open>Crossing\<close>, \<^verbatim>\<open>Palette\<close> and
  \<^verbatim>\<open>LinkManager\<close> from sibling modules.  What the editor calls on them and cannot be
  read off the call sites is a parameter of the model:
  \<^item> \<open>veq p q\<close>: \<^verbatim>\<open>Vertex.__eq__\<close> of a vertex at \<open>p\<close> with one at \<open>q\<close>;
  \<^item> \<open>too_close tol s p\<close>: \<^verbatim>\<open>Arrow.too_close(vertex, tolerance)\<close> for an arrow along \<open>s\<close>
    (\<open>None\<close> is the default tolerance); \<open>epsilon\<close>: \<^verbatim>\<open>Arrow.epsilon\<close>;
  \<^item> \<open>arrow_xor vs s t\<close>: \<^verbatim>\<open>Arrow.__xor__\<close>, the parameter along \<open>s\<close> at which it crosses
    \<open>t\<close>, or \<open>None\<close>, in a diagram whose stored vertices lie at the points \<open>vs\<close>;
    \<open>point_at s t\<close>: the point of \<open>s\<close> at parameter \<open>t\<close>;
  \<^item> \<open>crosspoints\<close>: \<^verbatim>\<open>LinkManager.update_crosspoints\<close>, which recomputes the two
    parallel lists \<^verbatim>\<open>Crossings\<close> and \<^verbatim>\<open>CrossPoints\<close>;
  \<^item> \<open>redraw_colors\<close>: the colours \<^verbatim>\<open>full_redraw\<close> assigns along
    \<^verbatim>\<open>LinkManager.arrow_components\<close> with a reset palette;
  \<^item> \<open>reverse_path\<close>, \<open>recolor_incoming\<close>, \<open>swallow\<close>: the \<^verbatim>\<open>Vertex\<close> methods of
    these names; \<open>palette_new\<close>, \<open>palette_recycle\<close>: the \<^verbatim>\<open>Palette\<close> methods;
  \<^item> \<open>canvasx\<close>, \<open>canvasy\<close>: the canvas' conversion of window coordinates;
  \<^item> \<open>default_color\<close>: the colour of a \<^verbatim>\<open>Vertex\<close> built without one.
  Display calls (\<^verbatim>\<open>draw\<close>, \<^verbatim>\<open>expose\<close>, \<^verbatim>\<open>hide\<close>, \<^verbatim>\<open>erase\<close>, \<^verbatim>\<open>freeze\<close>,
  \<^verbatim>\<open>update_info\<close>, \<^verbatim>\<open>update_smooth\<close>, the live preview lines) do not touch the
  fields modelled here and are left out.
\<close>

record env =
  veq :: "point \<Rightarrow> point \<Rightarrow> bool"
  too_close :: "rat option \<Rightarrow> segment \<Rightarrow> point \<Rightarrow> bool"
  epsilon :: rat
  arrow_xor :: "point list \<Rightarrow> segment \<Rightarrow> segment \<Rightarrow> rat option"
  point_at :: "segment \<Rightarrow> rat \<Rightarrow> point"
  crosspoints :: "editor \<Rightarrow> crossing list \<times> point list"
  redraw_colors :: "editor \<Rightarrow> (vid \<Rightarrow> string) \<times> (aid \<Rightarrow> string) \<times> string list"
  reverse_path :: "editor \<Rightarrow> vid \<Rightarrow> bool \<Rightarrow> editor"
  recolor_incoming :: "editor \<Rightarrow> vid \<Rightarrow> string option \<Rightarrow> (vid \<Rightarrow> string) \<times> (aid \<Rightarrow> string) \<times> string list"
  swallow :: "editor \<Rightarrow> vid \<Rightarrow> vid \<Rightarrow> editor"
  palette_new :: "string list \<Rightarrow> string \<times> string list"
  palette_recycle :: "string \<Rightarrow> string list \<Rightarrow> string list"
  canvasx :: "rat \<Rightarrow> rat"
  canvasy :: "rat \<Rightarrow> rat"
  default_color :: string

section \<open>Reading the stores\<close>

definition pos :: "editor \<Rightarrow> vid \<Rightarrow> point" where
  "pos ed v = (v_x (vheap ed v), v_y (vheap ed v))"

definition seg :: "editor \<Rightarrow> aid \<Rightarrow> segment" where
  "seg ed a = (pos ed (a_start (aheap ed a)), pos ed (a_end (aheap ed a)))"

text \<open>The positions of the stored vertices, which the intersection test consults.\<close>

definition vpoints :: "editor \<Rightarrow> point list" where
  "vpoints ed = map (pos ed) (Vertices ed)"

definition upd_vertex :: "vid \<Rightarrow> (vertex \<Rightarrow> vertex) \<Rightarrow> editor \<Rightarrow> editor" where
  "upd_vertex v f ed = ed\<lparr>vheap := (vheap ed)(v := f (vheap ed v))\<rparr>"

definition upd_arrow :: "aid \<Rightarrow> (arrow \<Rightarrow> arrow) \<Rightarrow> editor \<Rightarrow> editor" where
  "upd_arrow a f ed = ed\<lparr>aheap := (aheap ed)(a := f (aheap ed a))\<rparr>"

text \<open>\<^verbatim>\<open>list.index(x)\<close> and \<^verbatim>\<open>list.remove(x)\<close> act on the first element equal to \<open>x\<close>.\<close>

fun first_index :: "('a \<Rightarrow> bool) \<Rightarrow> 'a list \<Rightarrow> nat option" where
  "first_index P [] = None"
| "first_index P (x # xs) = (if P x then Some 0 else map_option Suc (first_index P xs))"

fun remove_first :: "('a \<Rightarrow> bool) \<Rightarrow> 'a list \<Rightarrow> 'a list" where
  "remove_first P [] = []"
| "remove_first P (x # xs) = (if P x then xs else x # remove_first P xs)"

text \<open>
  A handler builds a hidden \<^verbatim>\<open>Vertex(x, y)\<close> at the click and compares it with stored
  vertices; until such a probe is stored it is modelled by its point.
\<close>

definition vertex_in :: "env \<Rightarrow> editor \<Rightarrow> point \<Rightarrow> vid list \<Rightarrow> bool" where
  "vertex_in E ed p vs = list_ex (\<lambda>v. veq E (pos ed v) p) vs"

definition vertex_index :: "env \<Rightarrow> editor \<Rightarrow> point \<Rightarrow> vid list \<Rightarrow> nat option" where
  "vertex_index E ed p vs = first_index (\<lambda>v. veq E (pos ed v) p) vs"

text \<open>The same for a stored vertex \<open>w\<close>: Python tries identity before \<^verbatim>\<open>__eq__\<close>.\<close>

definition same_vertex :: "env \<Rightarrow> editor \<Rightarrow> vid \<Rightarrow> vid \<Rightarrow> bool" where
  "same_vertex E ed w v = (v = w \<or> veq E (pos ed v) (pos ed w))"

definition new_Vertex :: "editor \<Rightarrow> point \<Rightarrow> string \<Rightarrow> vid \<times> editor" where
  "new_Vertex ed p c =
     (vnext ed,
      ed\<lparr>vheap := (vheap ed)(vnext ed :=
             \<lparr>v_x = fst p, v_y = snd p, v_color = c, in_arrow = None, out_arrow = None\<rparr>),
         vnext := Suc (vnext ed)\<rparr>)"

text \<open>
  Modelled from the spec: the constructor \<^verbatim>\<open>Arrow(start, end, color)\<close> of \<^verbatim>\<open>arrow.py\<close>
  (inserting an arrow makes it the outgoing arrow of its start and the incoming arrow
  of its end; removal clears both references again).
\<close>

definition new_Arrow :: "editor \<Rightarrow> vid \<Rightarrow> vid \<Rightarrow> string \<Rightarrow> aid \<times> editor" where
  "new_Arrow ed s e c =
     (let a = anext ed;
          ed1 = ed\<lparr>aheap := (aheap ed)(a := \<lparr>a_start = s, a_end = e, a_color = c\<rparr>),
                   anext := Suc a\<rparr>;
          ed2 = upd_vertex s (\<lambda>v. v\<lparr>out_arrow := Some a\<rparr>) ed1;
          ed3 = upd_vertex e (\<lambda>v. v\<lparr>in_arrow := Some a\<rparr>) ed2
      in (a, ed3))"

text \<open>Modelled from the spec: an endpoint vertex lacks its incoming or its outgoing arrow.\<close>

definition is_endpoint :: "editor \<Rightarrow> vid \<Rightarrow> bool" where
  "is_endpoint ed v = (in_arrow (vheap ed v) = None \<or> out_arrow (vheap ed v) = None)"

section \<open>Crossings\<close>

text \<open>
  Modelled from the spec: a crossing is an unordered pair of arrows, one over and one
  under.  \<^verbatim>\<open>arrow in crossing\<close> holds for its two arrows, two crossings are equal when
  they are the same pair, \<^verbatim>\<open>reverse()\<close> exchanges over and under, a crossing built by
  the detector is not virtual, and \<^verbatim>\<open>locate()\<close> stores the computed intersection.
\<close>

definition c_contains :: "crossing \<Rightarrow> aid \<Rightarrow> bool" where
  "c_contains c a = (a = over c \<or> a = under c)"

definition c_eq :: "crossing \<Rightarrow> crossing \<Rightarrow> bool" where
  "c_eq c d = ((over c = over d \<and> under c = under d) \<or> (over c = under d \<and> under c = over d))"

definition c_reverse :: "crossing \<Rightarrow> crossing" where
  "c_reverse c = c\<lparr>over := under c, under := over c\<rparr>"

definition Crossing :: "aid \<Rightarrow> aid \<Rightarrow> crossing" where
  "Crossing ov un = \<lparr>c_id = 0, over = ov, under = un, is_virtual = False, c_loc = None\<rparr>"

definition c_locate :: "env \<Rightarrow> editor \<Rightarrow> crossing \<Rightarrow> crossing" where
  "c_locate E ed c =
     c\<lparr>c_loc := map_option (point_at E (seg ed (over c)))
                  (arrow_xor E (vpoints ed) (seg ed (over c)) (seg ed (under c)))\<rparr>"

text \<open>\<^verbatim>\<open>destroy_arrow\<close>\<close>

definition destroy_arrow :: "aid \<Rightarrow> editor \<Rightarrow> editor res" where
  "destroy_arrow a ed =
     (if a \<notin> set (Arrows ed) then Raise ValueError ed
      else
        let ed1 = ed\<lparr>Arrows := remove1 a (Arrows ed)\<rparr>;
            ed2 = upd_vertex (a_end (aheap ed1 a)) (\<lambda>v. v\<lparr>in_arrow := None\<rparr>) ed1;
            ed3 = upd_vertex (a_start (aheap ed2 a)) (\<lambda>v. v\<lparr>out_arrow := None\<rparr>) ed2
        in Ok (ed3\<lparr>Crossings := filter (\<lambda>c. \<not> c_contains c a) (Crossings ed3)\<rparr>))"

text \<open>
  \<^verbatim>\<open>update_crossings\<close>.  \<open>cl\<close> is \<^verbatim>\<open>cross_list\<close>, the crossings of \<^verbatim>\<open>this_arrow\<close> when
  the call starts; \<^verbatim>\<open>find(x)\<close> is the first of them equal to \<open>x\<close> and raises
  \<^verbatim>\<open>ValueError\<close> when there is none.  \<open>dmg\<close> is \<^verbatim>\<open>damage_list\<close>, which is only redrawn.
\<close>

definition r3_helper_active :: "editor \<Rightarrow> bool" where
  "r3_helper_active ed = (case r3_helper_tuple ed of None \<Rightarrow> False | Some b \<Rightarrow> b)"

definition relocate :: "env \<Rightarrow> nat \<Rightarrow> editor \<Rightarrow> editor" where
  "relocate E i ed =
     ed\<lparr>Crossings := map (\<lambda>c. if c_id c = i then c_locate E ed c else c) (Crossings ed)\<rparr>"

fun uc_loop :: "env \<Rightarrow> aid \<Rightarrow> crossing list \<Rightarrow> aid list \<Rightarrow> editor \<Rightarrow> aid list
    \<Rightarrow> (editor \<times> aid list) res" where
  "uc_loop E this cl [] ed dmg = Ok (ed, dmg)"
| "uc_loop E this cl (arrow # rest) ed dmg =
     (if this = arrow then uc_loop E this cl rest ed dmg
      else
        let new_crossing =
              c_locate E ed
                (if r3_helper_active ed then Crossing arrow this
                 else if \<not> under_mode ed then Crossing this arrow
                 else Crossing arrow this)
        in if c_loc new_crossing \<noteq> None then
             (case find (\<lambda>c. c_eq c new_crossing) cl of
                Some old \<Rightarrow> uc_loop E this cl rest (relocate E (c_id old) ed) dmg
              | None \<Rightarrow>
                  uc_loop E this cl rest
                    (ed\<lparr>Crossings := Crossings ed @ [new_crossing\<lparr>c_id := cnext ed\<rparr>],
                        cnext := Suc (cnext ed)\<rparr>) dmg)
           else if list_ex (\<lambda>c. c_eq c new_crossing) (Crossings ed) then
             (case find (\<lambda>c. c_eq c new_crossing) cl of
                None \<Rightarrow> Raise ValueError ed
              | Some old \<Rightarrow>
                  uc_loop E this cl rest
                    (ed\<lparr>Crossings := remove_first (\<lambda>c. c_eq c new_crossing) (Crossings ed)\<rparr>)
                    (if arrow = under old then dmg @ [arrow] else dmg))
           else uc_loop E this cl rest ed dmg)"

definition update_crossings :: "env \<Rightarrow> aid option \<Rightarrow> editor \<Rightarrow> editor res" where
  "update_crossings E this_arrow ed =
     (case this_arrow of
        None \<Rightarrow> Ok ed
      | Some this \<Rightarrow>
          bind_res
            (uc_loop E this (filter (\<lambda>c. c_contains c this) (Crossings ed)) (Arrows ed) ed [])
            (\<lambda>(ed', dmg). Ok ed'))"

definition update_crosspoints :: "env \<Rightarrow> editor \<Rightarrow> editor" where
  "update_crosspoints E ed =
     (let (cs, ps) = crosspoints E ed in ed\<lparr>Crossings := cs, CrossPoints := ps\<rparr>)"

section \<open>Genericity\<close>

text \<open>
  \<^verbatim>\<open>generic_vertex(vertex)\<close>: \<open>self_id\<close> is the handle of \<^verbatim>\<open>vertex\<close> when it is a stored
  vertex, \<open>p\<close> its position.
\<close>

definition generic_vertex :: "env \<Rightarrow> editor \<Rightarrow> vid option \<Rightarrow> point \<Rightarrow> bool" where
  "generic_vertex E ed self_id p =
     (if vertex_in E ed p (filter (\<lambda>v. Some v \<noteq> self_id) (Vertices ed)) then False
      else \<not> list_ex (\<lambda>a. too_close E (Some (epsilon E + 2)) (seg ed a) p) (Arrows ed))"

text \<open>
  \<^verbatim>\<open>generic_arrow(arrow)\<close>.  In locked mode the offending place gets the
  \<^verbatim>\<open>lock_error\<close> marker.  \<^verbatim>\<open>self.CrossPoints[...]\<close> raises \<^verbatim>\<open>IndexError\<close> past the end.
\<close>

definition mark :: "point \<Rightarrow> editor \<Rightarrow> editor" where
  "mark p ed = (if lock_var ed then ed\<lparr>lock_error := Some p\<rparr> else ed)"

fun ga_crossings :: "env \<Rightarrow> editor \<Rightarrow> aid \<Rightarrow> crossing list \<Rightarrow> (bool \<times> editor) res" where
  "ga_crossings E ed a [] = Ok (True, ed)"
| "ga_crossings E ed a (c # cs) =
     (case first_index (\<lambda>d. c_eq d c) (Crossings ed) of
        None \<Rightarrow> Raise ValueError ed
      | Some i \<Rightarrow>
          if length (CrossPoints ed) \<le> i then Raise IndexError ed
          else
            let point = CrossPoints ed ! i
            in if \<not> c_contains c a \<and> too_close E None (seg ed a) point
               then Ok (False, mark point ed)
               else ga_crossings E ed a cs)"

definition generic_arrow :: "env \<Rightarrow> editor \<Rightarrow> aid option \<Rightarrow> (bool \<times> editor) res" where
  "generic_arrow E ed arrow =
     (case arrow of
        None \<Rightarrow> Ok (True, ed)
      | Some a \<Rightarrow>
          (case find (\<lambda>v. too_close E None (seg ed a) (pos ed v)) (Vertices ed) of
             Some v \<Rightarrow> Ok (False, mark (pos ed v) ed)
           | None \<Rightarrow> ga_crossings E ed a (Crossings ed)))"

text \<open>
  \<^verbatim>\<open>verify_drag\<close>; \<^verbatim>\<open>active.update_arrows()\<close> refreshes cached direction vectors, which
  the model recomputes from the positions.  Python's \<^verbatim>\<open>and\<close> skips the second check
  when the first fails.
\<close>

definition verify_drag :: "env \<Rightarrow> editor \<Rightarrow> (bool \<times> editor) res" where
  "verify_drag E ed =
     (case ActiveVertex ed of
        None \<Rightarrow> Raise AttributeError ed
      | Some active \<Rightarrow>
          bind_res (update_crossings E (in_arrow (vheap ed active)) ed) (\<lambda>ed1.
          bind_res (update_crossings E (out_arrow (vheap ed1 active)) ed1) (\<lambda>ed2.
          let ed3 = update_crosspoints E ed2 in
          bind_res (generic_arrow E ed3 (in_arrow (vheap ed3 active))) (\<lambda>(ok_in, ed4).
            if \<not> ok_in then Ok (False, ed4)
            else generic_arrow E ed4 (out_arrow (vheap ed4 active))))))"


section \<open>Locked dragging\<close>

text \<open>
  \<^verbatim>\<open>crossed_arrows(arrow, ignore_list)\<close>: the indices in \<^verbatim>\<open>self.Arrows\<close> of the arrows that
  \<^verbatim>\<open>arrow\<close> crosses, sorted by the parameter along \<^verbatim>\<open>arrow\<close> (the pairs \<^verbatim>\<open>(t, n)\<close> are
  sorted as Python tuples).
\<close>

definition crossed_arrows :: "env \<Rightarrow> editor \<Rightarrow> aid option \<Rightarrow> aid option list \<Rightarrow> nat list" where
  "crossed_arrows E ed arrow ignore_list =
     (case arrow of
        None \<Rightarrow> []
      | Some a \<Rightarrow>
          map snd (sort (List.map_filter
            (\<lambda>(n, diagram_arrow).
               if a = diagram_arrow \<or> Some diagram_arrow \<in> set ignore_list then None
               else map_option (\<lambda>t. (t, n)) (arrow_xor E (vpoints ed) (seg ed a) (seg ed diagram_arrow)))
            (enumerate 0 (Arrows ed)))))"

definition active_crossing_data :: "env \<Rightarrow> editor \<Rightarrow> exn + (nat list \<times> nat list)" where
  "active_crossing_data E ed =
     (case ActiveVertex ed of
        None \<Rightarrow> Inl AssertionError
      | Some active \<Rightarrow>
          let ignore = [in_arrow (vheap ed active), out_arrow (vheap ed active)]
          in Inr (crossed_arrows E ed (in_arrow (vheap ed active)) ignore,
                  crossed_arrows E ed (out_arrow (vheap ed active)) ignore))"

definition move_is_ok :: "env \<Rightarrow> editor \<Rightarrow> exn + bool" where
  "move_is_ok E ed =
     (case active_crossing_data E ed of
        Inl e \<Rightarrow> Inl e
      | Inr d \<Rightarrow> Inr (Some d = saved_crossing_data ed))"

definition set_point :: "vid \<Rightarrow> point \<Rightarrow> editor \<Rightarrow> editor" where
  "set_point v p ed = upd_vertex v (\<lambda>w. w\<lparr>v_x := fst p, v_y := snd p\<rparr>) ed"

definition attach_cursor :: "editor \<Rightarrow> editor" where
  "attach_cursor ed = ed\<lparr>cursor_attached := True\<rparr>"

definition detach_cursor :: "editor \<Rightarrow> editor" where
  "detach_cursor ed = ed\<lparr>cursor_attached := False\<rparr>"

text \<open>\<^verbatim>\<open>move_active(x, y)\<close>\<close>

definition move_active :: "env \<Rightarrow> editor \<Rightarrow> rat \<Rightarrow> rat \<Rightarrow> editor res" where
  "move_active E ed x y =
     (case ActiveVertex ed of
        None \<Rightarrow> Raise AttributeError ed
      | Some active \<Rightarrow>
          if lock_var ed then
            let p0 = pos ed active;
                ed1 = set_point active (x, y) ed
            in (case move_is_ok E ed1 of
                  Inl e \<Rightarrow> Raise e ed1
                | Inr True \<Rightarrow>
                    if \<not> generic_vertex E ed1 (Some active) (pos ed1 active) then
                      let ed2 = set_point active p0 ed1;
                          ed3 = (if cursor_attached ed2 then detach_cursor ed2 else ed2)
                      in Ok (ed3\<lparr>lock_error := Some p0\<rparr>)
                    else
                      bind_res (verify_drag E ed1) (\<lambda>(ok, ed2).
                        if \<not> ok then
                          let ed3 = set_point active p0 ed2
                          in Ok (if cursor_attached ed3 then detach_cursor ed3 else ed3)
                        else
                          let ed3 = (if \<not> cursor_attached ed2 then attach_cursor ed2 else ed2)
                          in Ok (ed3\<lparr>lock_error := None\<rparr>))
                | Inr False \<Rightarrow>
                    let ed2 = (if cursor_attached ed1 then detach_cursor ed1 else ed1)
                    in Ok (set_point active p0 ed2))
          else Ok (set_point active (x, y) ed))"

section \<open>Paths along outgoing arrows\<close>

text \<open>
  The three tracing loops of the editor follow \<^verbatim>\<open>arrow.end.out_arrow\<close> and stop only
  when they meet their target, so they may run forever; a missing outgoing arrow is
  appended as \<^verbatim>\<open>None\<close> and raises \<^verbatim>\<open>AttributeError\<close> when the loop next reads its end.
  \<open>None\<close> is the loop that does not return.
\<close>

partial_function (option) follow_out :: "editor \<Rightarrow> aid \<Rightarrow> aid list \<Rightarrow> (exn + aid list) option" where
  "follow_out ed target arrow_path =
     (if target \<in> set arrow_path then Some (Inr arrow_path)
      else
        (case out_arrow (vheap ed (a_end (aheap ed (last arrow_path)))) of
           None \<Rightarrow> Some (Inl AttributeError)
         | Some nxt \<Rightarrow> follow_out ed target (arrow_path @ [nxt])))"

declare follow_out.simps [code]

definition get_over_arrow_path :: "editor \<Rightarrow> crossing \<Rightarrow> (exn + aid list) option" where
  "get_over_arrow_path ed crossing = follow_out ed (under crossing) [over crossing]"

definition get_under_arrow_path :: "editor \<Rightarrow> crossing \<Rightarrow> (exn + aid list) option" where
  "get_under_arrow_path ed crossing = follow_out ed (over crossing) [under crossing]"

partial_function (option) path_loop :: "env \<Rightarrow> editor \<Rightarrow> vid \<Rightarrow> aid list \<Rightarrow> (exn + aid list) option" where
  "path_loop E ed v2 path =
     (let next_vert = a_end (aheap ed (last path))
      in if veq E (pos ed next_vert) (pos ed v2) then Some (Inr path)
         else
           (case out_arrow (vheap ed next_vert) of
              None \<Rightarrow> Some (Inl AttributeError)
            | Some nxt \<Rightarrow> path_loop E ed v2 (path @ [nxt])))"

declare path_loop.simps [code]

definition get_path_btwn_verts :: "env \<Rightarrow> editor \<Rightarrow> vid \<Rightarrow> vid \<Rightarrow> (exn + aid list) option" where
  "get_path_btwn_verts E ed v1 v2 =
     (case out_arrow (vheap ed v1) of
        None \<Rightarrow> Some (Inl AttributeError)
      | Some a \<Rightarrow> path_loop E ed v2 [a])"

section \<open>Preconditions of the Reidemeister moves\<close>

text \<open>\<^verbatim>\<open>over_under_has_crossings\<close>: the loop over the other crossings.\<close>

fun ouhc_loop :: "aid list \<Rightarrow> aid list \<Rightarrow> crossing list \<Rightarrow> bool \<times> bool \<Rightarrow> bool \<times> bool" where
  "ouhc_loop over_arrow_path under_arrow_path [] r = r"
| "ouhc_loop over_arrow_path under_arrow_path (crossing # cs) (no_crossings_over, no_crossings_under) =
     ouhc_loop over_arrow_path under_arrow_path cs
       (if under crossing \<in> set over_arrow_path then (False, no_crossings_under)
        else if over crossing \<in> set over_arrow_path then (False, no_crossings_under)
        else if under crossing \<in> set under_arrow_path then (no_crossings_over, False)
        else if over crossing \<in> set under_arrow_path then (no_crossings_over, False)
        else (no_crossings_over, no_crossings_under))"

definition over_under_has_crossings ::
    "editor \<Rightarrow> aid list \<Rightarrow> aid list \<Rightarrow> crossing \<Rightarrow> exn + (bool \<times> bool)" where
  "over_under_has_crossings ed over_arrow_path under_arrow_path clicked_cross =
     (if \<not> list_ex (\<lambda>c. c_eq c clicked_cross) (Crossings ed) then Inl ValueError
      else Inr (ouhc_loop over_arrow_path under_arrow_path
                  (remove_first (\<lambda>c. c_eq c clicked_cross) (Crossings ed)) (True, True)))"

text \<open>\<^verbatim>\<open>all_oriented(arrow)\<close> returns \<^verbatim>\<open>(can_reduce, is_under)\<close>; \<open>None\<close> is Python's \<^verbatim>\<open>None\<close>.\<close>

fun ao_loop :: "aid \<Rightarrow> crossing list \<Rightarrow> bool \<times> bool \<Rightarrow> bool \<times> bool" where
  "ao_loop arrow [] r = r"
| "ao_loop arrow (crossing # cs) (no_crossings_over, no_crossings_under) =
     ao_loop arrow cs
       (if arrow = under crossing then (no_crossings_over, False)
        else if arrow = over crossing then (False, no_crossings_under)
        else (no_crossings_over, no_crossings_under))"

definition all_oriented :: "editor \<Rightarrow> aid \<Rightarrow> bool \<times> bool option" where
  "all_oriented ed arrow =
     (let (no_crossings_over, no_crossings_under) = ao_loop arrow (Crossings ed) (True, True)
      in if no_crossings_over \<and> no_crossings_under then (True, Some (under_mode ed))
         else if no_crossings_over \<and> \<not> no_crossings_under then (True, Some True)
         else if \<not> no_crossings_over \<and> no_crossings_under then (True, Some False)
         else (False, None))"

text \<open>\<^verbatim>\<open>oriented_path(path)\<close>; the accumulator is \<^verbatim>\<open>default_orientation\<close>.\<close>

fun op_loop :: "editor \<Rightarrow> aid list \<Rightarrow> bool option \<Rightarrow> bool" where
  "op_loop ed [] default_orientation = True"
| "op_loop ed (arrow # rest) default_orientation =
     (let orientation_output = all_oriented ed arrow
      in if fst orientation_output = False then False
         else if default_orientation = None then op_loop ed rest (snd orientation_output)
         else if default_orientation \<noteq> snd orientation_output then False
         else op_loop ed rest default_orientation)"

definition oriented_path :: "editor \<Rightarrow> aid list \<Rightarrow> bool" where
  "oriented_path ed path = op_loop ed path None"

text \<open>
  \<^verbatim>\<open>get_vertex_set(path)\<close> builds a Python set; the model keeps the vertices in the
  order of their first insertion.
\<close>

fun gvs_loop :: "editor \<Rightarrow> nat \<Rightarrow> nat \<Rightarrow> aid list \<Rightarrow> vid list \<Rightarrow> vid list" where
  "gvs_loop ed n i [] vert_set = vert_set"
| "gvs_loop ed n i (arrow # rest) vert_set =
     gvs_loop ed n (Suc i) rest
       (if i = 0 then List.insert (a_end (aheap ed arrow)) vert_set
        else if Suc i = n then List.insert (a_start (aheap ed arrow)) vert_set
        else List.insert (a_end (aheap ed arrow)) (List.insert (a_start (aheap ed arrow)) vert_set))"

definition get_vertex_set :: "editor \<Rightarrow> aid list \<Rightarrow> vid list" where
  "get_vertex_set ed path = rev (gvs_loop ed (length path) 0 path [])"


section \<open>State changes of the editor\<close>

definition alert :: "editor \<Rightarrow> editor" where
  "alert ed = ed\<lparr>alerts := Suc (alerts ed)\<rparr>"

definition showwarning :: "string \<Rightarrow> editor \<Rightarrow> editor" where
  "showwarning msg ed = ed\<lparr>warnings := warnings ed @ [msg]\<rparr>"

definition apply_colors :: "(vid \<Rightarrow> string) \<times> (aid \<Rightarrow> string) \<times> string list \<Rightarrow> editor \<Rightarrow> editor" where
  "apply_colors r ed =
     (case r of (vc, ac, pal) \<Rightarrow>
        ed\<lparr>vheap := (\<lambda>v. (vheap ed v)\<lparr>v_color := vc v\<rparr>),
           aheap := (\<lambda>a. (aheap ed a)\<lparr>a_color := ac a\<rparr>),
           palette := pal\<rparr>)"

text \<open>\<^verbatim>\<open>set_style\<close> shows or hides items and ends in \<^verbatim>\<open>full_redraw\<close>, which recolours.\<close>

definition full_redraw :: "env \<Rightarrow> editor \<Rightarrow> editor" where
  "full_redraw E ed = apply_colors (redraw_colors E ed) ed"

definition set_style :: "env \<Rightarrow> editor \<Rightarrow> editor" where
  "set_style E ed = full_redraw E ed"

definition goto_start_state :: "env \<Rightarrow> editor \<Rightarrow> editor" where
  "goto_start_state E ed =
     (let ed1 = ed\<lparr>lock_error := None, ActiveVertex := None\<rparr>;
          ed2 = update_crosspoints E ed1;
          ed3 = ed2\<lparr>state := start_state\<rparr>
      in set_style E ed3)"

definition goto_drawing_state :: "editor \<Rightarrow> editor res" where
  "goto_drawing_state ed =
     (if ActiveVertex ed = None then Raise AttributeError ed
      else Ok (ed\<lparr>state := drawing_state\<rparr>))"

text \<open>\<^verbatim>\<open>self.Vertices.remove(v)\<close> for a stored vertex.\<close>

definition remove_vertex :: "env \<Rightarrow> vid \<Rightarrow> editor \<Rightarrow> editor res" where
  "remove_vertex E w ed =
     (if list_ex (same_vertex E ed w) (Vertices ed)
      then Ok (ed\<lparr>Vertices := remove_first (same_vertex E ed w) (Vertices ed)\<rparr>)
      else Raise ValueError ed)"

section \<open>Reidemeister I\<close>

text \<open>The loop of the R1 branch that deletes the arrows of the chosen path.\<close>

fun r1_loop :: "env \<Rightarrow> aid list \<Rightarrow> editor \<Rightarrow> editor res" where
  "r1_loop E [] ed = Ok ed"
| "r1_loop E (arrow # rest) ed =
     bind_res (if rest \<noteq> [] then remove_vertex E (a_end (aheap ed arrow)) ed else Ok ed)
       (\<lambda>ed1. bind_res (destroy_arrow arrow ed1) (r1_loop E rest))"

definition r1_replace ::
    "env \<Rightarrow> editor \<Rightarrow> point \<Rightarrow> aid list \<Rightarrow> vid \<Rightarrow> vid \<Rightarrow> string \<Rightarrow> editor res" where
  "r1_replace E ed start_vertex path original_under_start original_over_end color =
     bind_res (r1_loop E path ed) (\<lambda>ed1.
       let (new_vert, ed2) = new_Vertex ed1 start_vertex color;
           ed3 = ed2\<lparr>Vertices := Vertices ed2 @ [new_vert]\<rparr>;
           (arrow1, ed4) = new_Arrow ed3 original_under_start new_vert color;
           (arrow2, ed5) = new_Arrow ed4 new_vert original_over_end color
       in Ok (ed5\<lparr>Arrows := Arrows ed5 @ [arrow1, arrow2]\<rparr>))"

text \<open>\<^verbatim>\<open>self.Crossings[self.CrossPoints.index(start_vertex)]\<close>\<close>

definition clicked_crossing :: "env \<Rightarrow> editor \<Rightarrow> point \<Rightarrow> exn + (nat \<times> crossing)" where
  "clicked_crossing E ed p =
     (case first_index (\<lambda>q. veq E q p) (CrossPoints ed) of
        None \<Rightarrow> Inl ValueError
      | Some i \<Rightarrow> if i < length (Crossings ed) then Inr (i, Crossings ed ! i) else Inl IndexError)"

definition r1_warning :: string where
  "r1_warning = ''Sorry! R1 mode does not work in this setting.''"

definition click_r1 :: "env \<Rightarrow> editor \<Rightarrow> point \<Rightarrow> editor res option" where
  "click_r1 E ed start_vertex =
     (case clicked_crossing E ed start_vertex of
        Inl e \<Rightarrow> Some (Raise e ed)
      | Inr (i, crossing) \<Rightarrow>
     (case get_over_arrow_path ed crossing of
        None \<Rightarrow> None
      | Some (Inl e) \<Rightarrow> Some (Raise e ed)
      | Some (Inr over_arrow_path) \<Rightarrow>
     (case get_under_arrow_path ed crossing of
        None \<Rightarrow> None
      | Some (Inl e) \<Rightarrow> Some (Raise e ed)
      | Some (Inr under_arrow_path) \<Rightarrow>
     (case over_under_has_crossings ed over_arrow_path under_arrow_path crossing of
        Inl e \<Rightarrow> Some (Raise e ed)
      | Inr (can_reduce_over, can_reduce_under) \<Rightarrow>
          if can_reduce_under then
            Some (r1_replace E ed start_vertex under_arrow_path
                    (a_start (aheap ed (under crossing))) (a_end (aheap ed (over crossing)))
                    (a_color (aheap ed (over crossing))))
          else if can_reduce_over then
            Some (r1_replace E ed start_vertex over_arrow_path
                    (a_start (aheap ed (over crossing))) (a_end (aheap ed (under crossing)))
                    (a_color (aheap ed (over crossing))))
          else Some (Ok (showwarning r1_warning ed))))))"

section \<open>Reidemeister II\<close>

text \<open>
  The R2 branch records the click and, once two crossings are recorded, tests
  \<^verbatim>\<open>can_reduce_over or can_reduce_under\<close>.  Both names are local variables that only the
  R1 branch assigns, so the test raises \<^verbatim>\<open>UnboundLocalError\<close> before the branch does
  anything else (the text after the test still holds unresolved merge markers).
\<close>

definition click_r2 :: "editor \<Rightarrow> point \<Rightarrow> editor res" where
  "click_r2 ed start_vertex =
     (let ed1 = ed\<lparr>r2_crossings := r2_crossings ed @ [start_vertex]\<rparr>
      in if length (r2_crossings ed1) = 2 then Raise UnboundLocalError ed1 else Ok ed1)"

section \<open>Reidemeister III\<close>

definition r3_slide :: "env \<Rightarrow> editor \<Rightarrow> vid \<Rightarrow> aid list \<Rightarrow> editor res" where
  "r3_slide E ed vert1 path =
     (let vert_set = get_vertex_set ed path
      in bind_res (for_each destroy_arrow path ed) (\<lambda>ed1.
         bind_res (for_each (remove_vertex E) vert_set ed1) (\<lambda>ed2.
           goto_drawing_state (ed2\<lparr>ActiveVertex := Some vert1\<rparr>))))"

definition click_r3 :: "env \<Rightarrow> editor \<Rightarrow> point \<Rightarrow> editor res option" where
  "click_r3 E ed start_vertex =
     (let ed1 = ed\<lparr>r3_crossings := r3_crossings ed @ [start_vertex]\<rparr>
      in if length (r3_crossings ed1) = 2 then
           (case vertex_index E ed1 (r3_crossings ed1 ! 0) (Vertices ed1) of
              None \<Rightarrow> Some (Raise ValueError ed1)
            | Some i1 \<Rightarrow>
           (case vertex_index E ed1 (r3_crossings ed1 ! 1) (Vertices ed1) of
              None \<Rightarrow> Some (Raise ValueError ed1)
            | Some i2 \<Rightarrow>
                let vert1 = Vertices ed1 ! i1; vert2 = Vertices ed1 ! i2
                in (case get_path_btwn_verts E ed1 vert1 vert2 of
                      None \<Rightarrow> None
                    | Some (Inl e) \<Rightarrow> Some (Raise e ed1)
                    | Some (Inr path) \<Rightarrow>
                        if oriented_path ed1 path then Some (r3_slide E ed1 vert1 path)
                        else Some (Ok ed1))))
         else Some (Ok ed1))"


section \<open>Dragging\<close>

text \<open>
  \<^verbatim>\<open>end_dragging_state\<close>.  In vertex mode it compares the number of crossed arrows with
  \<^verbatim>\<open>len(self.active_crossing_data())\<close>, the length of a pair.
\<close>

definition end_dragging_state :: "env \<Rightarrow> editor \<Rightarrow> editor res" where
  "end_dragging_state E ed =
     bind_res (verify_drag E ed) (\<lambda>(ok, ed1).
       if \<not> ok then Raise ValueError ed1
       else
         (case ActiveVertex ed1 of
            None \<Rightarrow> Raise AttributeError ed1
          | Some active \<Rightarrow>
              let ed2 = (if lock_var ed1 then (detach_cursor ed1)\<lparr>saved_crossing_data := None\<rparr>
                         else set_point active (cursorx ed1, cursory ed1) ed1);
                  ia = in_arrow (vheap ed2 active);
                  oa = out_arrow (vheap ed2 active);
                  c_list = crossed_arrows E ed2 ia [ia] @ crossed_arrows E ed2 oa [oa]
              in if vertex_mode ed2 \<and> length c_list \<noteq> 2 then Raise ValueError ed2
                 else
                   bind_res
                     (if is_endpoint ed2 active then
                        let other_ends = filter (\<lambda>v. is_endpoint ed2 v \<and> v \<noteq> active) (Vertices ed2);
                            (endpoint, ed3) =
                              (case find (\<lambda>v. veq E (pos ed2 v) (pos ed2 active)) other_ends of
                                 None \<Rightarrow> (None, ed2)
                               | Some e \<Rightarrow>
                                   let ed' = swallow E ed2 active e
                                   in (Some e, ed'\<lparr>Vertices := filter (\<lambda>v. v \<noteq> e) (Vertices ed')\<rparr>))
                        in bind_res (update_crossings E (in_arrow (vheap ed3 active)) ed3) (\<lambda>ed4.
                           bind_res (update_crossings E (out_arrow (vheap ed4 active)) ed4) (\<lambda>ed5.
                             Ok (endpoint, ed5)))
                      else Ok (None, ed2))
                     (\<lambda>(endpoint, ed6).
                        if endpoint = None \<and> \<not> generic_vertex E ed6 (Some active) (pos ed6 active)
                        then Raise ValueError ed6
                        else Ok (goto_start_state E ed6))))"

record event =
  ev_x :: rat
  ev_y :: rat

text \<open>\<^verbatim>\<open>double_click\<close>\<close>

definition double_click :: "env \<Rightarrow> editor \<Rightarrow> event \<Rightarrow> editor res" where
  "double_click E ed ev =
     (if style_var ed = smooth then Ok ed
      else if lock_var ed then Ok ed
      else
        let p = (canvasx E (ev_x ev), canvasy E (ev_y ev))
        in (case state ed of
              dragging_state \<Rightarrow>
                (case end_dragging_state E ed of
                   Raise ValueError ed' \<Rightarrow> Ok (alert ed')
                 | Raise e ed' \<Rightarrow> Raise e ed'
                 | Ok ed1 \<Rightarrow>
                     if vertex_in E ed1 p (filter (is_endpoint ed1) (Vertices ed1)) then
                       (case vertex_index E ed1 p (Vertices ed1) of
                          None \<Rightarrow> Raise ValueError ed1
                        | Some i \<Rightarrow>
                            let vertex = Vertices ed1 ! i;
                                ed2 = (if out_arrow (vheap ed1 vertex) \<noteq> None
                                       then reverse_path E (update_crosspoints E ed1) vertex False
                                       else ed1)
                            in goto_drawing_state (ed2\<lparr>ActiveVertex := Some vertex\<rparr>))
                     else if vertex_in E ed1 p (Vertices ed1) then
                       (case vertex_index E ed1 p (Vertices ed1) of
                          None \<Rightarrow> Raise ValueError ed1
                        | Some i \<Rightarrow>
                            let cut_vertex = Vertices ed1 ! i;
                                ed2 = apply_colors (recolor_incoming E ed1 cut_vertex None) ed1
                            in (case in_arrow (vheap ed2 cut_vertex) of
                                  None \<Rightarrow> Raise AttributeError
                                            (upd_vertex cut_vertex (\<lambda>v. v\<lparr>in_arrow := None\<rparr>) ed2)
                                | Some cut_arrow \<Rightarrow>
                                    let ed3 = upd_vertex cut_vertex (\<lambda>v. v\<lparr>in_arrow := None\<rparr>) ed2
                                    in goto_drawing_state
                                         (ed3\<lparr>ActiveVertex := Some (a_start (aheap ed3 cut_arrow))\<rparr>)))
                     else
                       let (vertex, ed2) = new_Vertex ed1 p (default_color E)
                       in goto_drawing_state (ed2\<lparr>ActiveVertex := Some vertex\<rparr>))
            | drawing_state \<Rightarrow>
                (case ActiveVertex ed of
                   None \<Rightarrow> Raise AttributeError ed
                 | Some active \<Rightarrow>
                     bind_res
                       (case out_arrow (vheap ed active) of
                          None \<Rightarrow> Ok ed
                        | Some dead_arrow \<Rightarrow> destroy_arrow dead_arrow ed)
                       (\<lambda>ed1. Ok (goto_start_state E ed1)))
            | start_state \<Rightarrow> Ok ed))"

text \<open>The branch of \<^verbatim>\<open>single_click\<close> that starts dragging a vertex.\<close>

definition start_drag :: "env \<Rightarrow> editor \<Rightarrow> event \<Rightarrow> point \<Rightarrow> editor res" where
  "start_drag E ed ev start_vertex =
     (let ed1 = ed\<lparr>state := dragging_state\<rparr>
      in (case vertex_index E ed1 start_vertex (Vertices ed1) of
            None \<Rightarrow> Raise ValueError ed1
          | Some i \<Rightarrow>
              let active = Vertices ed1 ! i;
                  ed2 = ed1\<lparr>ActiveVertex := Some active\<rparr>
              in (case active_crossing_data E ed2 of
                    Inl e \<Rightarrow> Raise e ed2
                  | Inr d \<Rightarrow>
                      let ed3 = ed2\<lparr>saved_crossing_data := Some d\<rparr>
                      in if in_arrow (vheap ed3 active) = None \<and> out_arrow (vheap ed3 active) = None
                         then double_click E ed3 ev
                         else Ok (if lock_var ed3 then attach_cursor ed3 else ed3))))"

section \<open>Clicks on arrows and in the drawing state\<close>

text \<open>\<^verbatim>\<open>clicked_on_arrow\<close> and the branch of \<^verbatim>\<open>single_click\<close> it guards.\<close>

definition clicked_on_arrow :: "env \<Rightarrow> editor \<Rightarrow> point \<Rightarrow> bool" where
  "clicked_on_arrow E ed p = list_ex (\<lambda>a. too_close E None (seg ed a) p) (Arrows ed)"

definition click_arrow :: "env \<Rightarrow> editor \<Rightarrow> point \<Rightarrow> editor res" where
  "click_arrow E ed start_vertex =
     (if vertex_mode ed then
        (case find (\<lambda>a. too_close E None (seg ed a) start_vertex) (rev (Arrows ed)) of
           None \<Rightarrow> Raise ValueError ed
         | Some selected_arrow \<Rightarrow>
             let this_color = a_color (aheap ed selected_arrow);
                 start = a_start (aheap ed selected_arrow);
                 e = a_end (aheap ed selected_arrow)
             in bind_res (destroy_arrow selected_arrow ed) (\<lambda>ed1.
                  let (new_vert, ed2) = new_Vertex ed1 start_vertex this_color;
                      (arrow1, ed3) = new_Arrow ed2 start new_vert this_color;
                      (arrow2, ed4) = new_Arrow ed3 new_vert e this_color;
                      ed5 = ed4\<lparr>Vertices := Vertices ed4 @ [new_vert],
                                Arrows := Arrows ed4 @ [arrow1, arrow2]\<rparr>
                  in bind_res (update_crossings E (Some arrow1) ed5) (\<lambda>ed6.
                     bind_res (update_crossings E (Some arrow2) ed6) (\<lambda>ed7.
                       Ok (update_crosspoints E ed7)))))
      else
        (case find (\<lambda>a. too_close E None (seg ed a) start_vertex) (Arrows ed) of
           None \<Rightarrow> Ok ed
         | Some a \<Rightarrow> Ok (reverse_path E ed (a_end (aheap ed a)) True)))"

text \<open>
  Joining the pending arrow to an existing vertex (\<^verbatim>\<open>melding vertices\<close>): the part of the
  drawing-state branch shared by its R3 and its ordinary case, up to
  \<^verbatim>\<open>update_crossings(next_arrow)\<close>.  \<open>meld\<close> looks the target up
  (\<^verbatim>\<open>self.Vertices[self.Vertices.index(next_vertex)]\<close>, the first stored vertex that equals
  the click) and reverses its path when it has an incoming arrow; \<open>splice\<close> is the rest:
  the pending arrow is made to end in the target and becomes its incoming arrow, the
  component is recoloured if the colours differ, and the crossings of the pending arrow
  are recomputed.
\<close>

definition splice :: "env \<Rightarrow> editor \<Rightarrow> vid \<Rightarrow> vid \<Rightarrow> aid \<Rightarrow> editor res" where
  "splice E ed1 active next_vertex next_arrow =
     (let ed2 = upd_arrow next_arrow (\<lambda>a. a\<lparr>a_end := next_vertex\<rparr>) ed1;
          ed3 = upd_vertex next_vertex (\<lambda>v. v\<lparr>in_arrow := Some next_arrow\<rparr>) ed2;
          ed4 = (if v_color (vheap ed3 next_vertex) \<noteq> v_color (vheap ed3 active) then
                   let ed' = ed3\<lparr>palette :=
                                  palette_recycle E (v_color (vheap ed3 active)) (palette ed3)\<rparr>
                   in apply_colors
                        (recolor_incoming E ed' next_vertex (Some (v_color (vheap ed' next_vertex))))
                        ed'
                 else ed3)
      in update_crossings E (Some next_arrow) ed4)"

definition meld :: "env \<Rightarrow> editor \<Rightarrow> vid \<Rightarrow> vid \<Rightarrow> aid \<Rightarrow> editor res" where
  "meld E ed active nv next_arrow =
     (case first_index (same_vertex E ed nv) (Vertices ed) of
        None \<Rightarrow> Raise ValueError ed
      | Some i \<Rightarrow>
          let next_vertex = Vertices ed ! i
          in splice E
               (if in_arrow (vheap ed next_vertex) \<noteq> None
                then reverse_path E ed next_vertex False else ed)
               active next_vertex next_arrow)"

text \<open>
  The drawing-state branch of \<^verbatim>\<open>single_click\<close>, in three parts.  \<open>extend_pending\<close> sets
  up the pending arrow to the new vertex at the click: the outgoing arrow of the active
  vertex when there is one, else a new arrow.  \<open>extend_path\<close> is the ordinary end of the
  branch (\<^verbatim>\<open>just extending a path, as usual\<close>).
\<close>

definition extend_pending :: "env \<Rightarrow> editor \<Rightarrow> vid \<Rightarrow> point \<Rightarrow> vid \<times> aid \<times> editor" where
  "extend_pending E ed active p =
     (let (nv, ed1) = new_Vertex ed p (default_color E);
          (next_arrow, ed2) =
            (case out_arrow (vheap ed1 active) of
               Some a \<Rightarrow>
                 (a, upd_vertex nv (\<lambda>v. v\<lparr>in_arrow := Some a\<rparr>)
                       (upd_arrow a (\<lambda>r. r\<lparr>a_end := nv\<rparr>) ed1))
             | None \<Rightarrow>
                 let (a, ed') = new_Arrow ed1 active nv (v_color (vheap ed1 active))
                 in (a, ed'\<lparr>Arrows := Arrows ed' @ [a]\<rparr>))
      in (nv, next_arrow,
          upd_vertex nv (\<lambda>v. v\<lparr>v_color := a_color (aheap ed2 next_arrow)\<rparr>) ed2))"

definition extend_path :: "env \<Rightarrow> vid \<Rightarrow> aid \<Rightarrow> editor \<Rightarrow> editor res" where
  "extend_path E nv next_arrow ed4 =
     (if \<not> generic_vertex E ed4 (Some nv) (pos ed4 nv)
      then destroy_arrow next_arrow (alert ed4)
      else
        bind_res (generic_arrow E ed4 (Some next_arrow)) (\<lambda>(ok, ed5).
          if \<not> ok then destroy_arrow next_arrow (alert ed5)
          else
            bind_res (update_crossings E (Some next_arrow) ed5) (\<lambda>ed6.
              let ed7 = update_crosspoints E ed6
              in Ok (ed7\<lparr>Vertices := Vertices ed7 @ [nv], ActiveVertex := Some nv\<rparr>))))"

definition click_drawing :: "env \<Rightarrow> editor \<Rightarrow> point \<Rightarrow> editor res" where
  "click_drawing E ed p =
     (case ActiveVertex ed of
        None \<Rightarrow> Raise AttributeError ed
      | Some active \<Rightarrow>
          if veq E p (pos ed active) then
            bind_res
              (case out_arrow (vheap ed active) of
                 None \<Rightarrow> Ok ed
               | Some dead_arrow \<Rightarrow> destroy_arrow dead_arrow ed)
              (\<lambda>ed1. Ok (goto_start_state E ed1))
          else
            let (nv, next_arrow, ed3) = extend_pending E ed active p
            in if r3_mode ed3 then
                 (if length (r3_crossings ed3) < 2 then Raise IndexError ed3
                  else if veq E (pos ed3 nv) (r3_crossings ed3 ! 1) then
                    bind_res (generic_arrow E ed3 (Some next_arrow)) (\<lambda>(ok, ed4).
                      if \<not> ok then Ok (alert ed4)
                      else
                        bind_res (meld E ed4 active nv next_arrow) (\<lambda>ed5.
                          Ok (goto_start_state E (ed5\<lparr>r3_crossings := []\<rparr>))))
                  else extend_path E nv next_arrow ed3)
               else if list_ex (same_vertex E ed3 nv) (filter (is_endpoint ed3) (Vertices ed3)) then
                 bind_res (generic_arrow E ed3 (Some next_arrow)) (\<lambda>(ok, ed4).
                   if \<not> ok then Ok (alert ed4)
                   else
                     bind_res (meld E ed4 active nv next_arrow) (\<lambda>ed5.
                       Ok ((goto_start_state E ed5)\<lparr>r3_helper_tuple := None\<rparr>)))
               else extend_path E nv next_arrow ed3)"

section \<open>The click handlers\<close>

text \<open>The branch of \<^verbatim>\<open>single_click\<close> for a crossing outside the R1 and R2 modes.\<close>

definition click_crossing :: "env \<Rightarrow> editor \<Rightarrow> point \<Rightarrow> editor res" where
  "click_crossing E ed start_vertex =
     (case clicked_crossing E ed start_vertex of
        Inl e \<Rightarrow> Raise e ed
      | Inr (i, crossing) \<Rightarrow>
          Ok (ed\<lparr>Crossings := (Crossings ed)[i :=
                 (if is_virtual crossing then crossing\<lparr>is_virtual := False\<rparr>
                  else c_reverse crossing)]\<rparr>))"

definition click_empty :: "env \<Rightarrow> editor \<Rightarrow> point \<Rightarrow> editor res" where
  "click_empty E ed start_vertex =
     (if \<not> generic_vertex E ed None start_vertex then Ok (alert ed)
      else
        let (color, pal) = palette_new E (palette ed);
            (v, ed1) = new_Vertex (ed\<lparr>palette := pal\<rparr>) start_vertex color
        in goto_drawing_state (ed1\<lparr>Vertices := Vertices ed1 @ [v], ActiveVertex := Some v\<rparr>))"

text \<open>\<^verbatim>\<open>single_click(event)\<close>; \<open>None\<close> when a tracing loop does not return.\<close>

definition single_click :: "env \<Rightarrow> editor \<Rightarrow> event \<Rightarrow> editor res option" where
  "single_click E ed0 ev =
     (if style_var ed0 = smooth then Some (Ok ed0)
      else if state ed0 = start_state \<and> \<not> has_focus ed0 then Some (Ok ed0)
      else
        let ed = (if state ed0 = start_state then ed0 else ed0\<lparr>has_focus := True\<rparr>);
            start_vertex = (canvasx E (ev_x ev), canvasy E (ev_y ev))
        in (case state ed of
              start_state \<Rightarrow>
                if vertex_in E ed start_vertex (Vertices ed) then
                  (if r3_mode ed then click_r3 E ed start_vertex
                   else Some (start_drag E ed ev start_vertex))
                else if lock_var ed then Some (Ok ed)
                else if list_ex (\<lambda>q. veq E q start_vertex) (CrossPoints ed) then
                  (if r1_mode ed then click_r1 E ed start_vertex
                   else if r2_mode ed then Some (click_r2 ed start_vertex)
                   else Some (click_crossing E ed start_vertex))
                else if clicked_on_arrow E ed start_vertex then Some (click_arrow E ed start_vertex)
                else Some (click_empty E ed start_vertex)
            | drawing_state \<Rightarrow> Some (click_drawing E ed start_vertex)
            | dragging_state \<Rightarrow>
                Some (case end_dragging_state E ed of
                        Raise ValueError ed' \<Rightarrow> Ok (alert ed')
                      | r \<Rightarrow> r)))"



section \<open>A concrete plane geometry\<close>

text \<open>
  An instance of the collaborators, used to run the handlers on concrete diagrams.

  Modelled from the spec: the intersection test of \<^verbatim>\<open>arrow.py\<close> (both arrows are line
  segments; the intersection parameters are solved by the determinant; the crossing is
  proper only if both parameters lie strictly between 0 and 1 and the computed point is
  farther than the tolerance from every vertex: the four ends of the two arrows and
  all stored vertices), vertex coincidence
  within the tolerance, and the distance test of \<^verbatim>\<open>too_close\<close>, which exempts the arrow's
  own two endpoints.  Distances are compared by their squares.
\<close>

definition dist2 :: "point \<Rightarrow> point \<Rightarrow> rat" where
  "dist2 p q = (fst p - fst q) * (fst p - fst q) + (snd p - snd q) * (snd p - snd q)"

definition plane_veq :: "rat \<Rightarrow> point \<Rightarrow> point \<Rightarrow> bool" where
  "plane_veq eps p q = (dist2 p q < eps * eps)"

definition plane_point_at :: "segment \<Rightarrow> rat \<Rightarrow> point" where
  "plane_point_at s t =
     (fst (fst s) + t * (fst (snd s) - fst (fst s)), snd (fst s) + t * (snd (snd s) - snd (fst s)))"

definition plane_too_close :: "rat \<Rightarrow> rat option \<Rightarrow> segment \<Rightarrow> point \<Rightarrow> bool" where
  "plane_too_close eps tolerance s p =
     (let tol = (case tolerance of None \<Rightarrow> eps | Some t \<Rightarrow> t);
          dx = fst (snd s) - fst (fst s);
          dy = snd (snd s) - snd (fst s);
          len2 = dx * dx + dy * dy;
          t = (if len2 = 0 then 0
               else max 0 (min 1 (((fst p - fst (fst s)) * dx + (snd p - snd (fst s)) * dy) / len2)))
      in if plane_veq eps p (fst s) \<or> plane_veq eps p (snd s) then False
         else dist2 p (plane_point_at s t) < tol * tol)"

definition plane_xor :: "rat \<Rightarrow> point list \<Rightarrow> segment \<Rightarrow> segment \<Rightarrow> rat option" where
  "plane_xor eps vs s1 s2 =
     (let dx1 = fst (snd s1) - fst (fst s1); dy1 = snd (snd s1) - snd (fst s1);
          dx2 = fst (snd s2) - fst (fst s2); dy2 = snd (snd s2) - snd (fst s2);
          D = dx2 * dy1 - dx1 * dy2;
          xx = fst (fst s2) - fst (fst s1);
          yy = snd (fst s2) - snd (fst s1)
      in if D = 0 then None
         else
           let s = (yy * dx1 - xx * dy1) / D;
               t = (yy * dx2 - xx * dy2) / D;
               p = plane_point_at s1 t
           in if 0 < s \<and> s < 1 \<and> 0 < t \<and> t < 1
                 \<and> list_all (\<lambda>v. eps * eps < dist2 p v)
                      ([fst s1, snd s1, fst s2, snd s2] @ vs)
              then Some t else None)"

definition plane_crosspoints :: "rat \<Rightarrow> editor \<Rightarrow> crossing list \<times> point list" where
  "plane_crosspoints eps ed =
     (let located = map (\<lambda>c. c\<lparr>c_loc := map_option (plane_point_at (seg ed (over c)))
                                 (plane_xor eps (vpoints ed) (seg ed (over c)) (seg ed (under c)))\<rparr>)
                        (Crossings ed);
          cs = filter (\<lambda>c. c_loc c \<noteq> None) located
      in (cs, map (\<lambda>c. the (c_loc c)) cs))"

text \<open>
  The remaining fields keep colours and paths as they are; no run below depends on
  them.
\<close>

definition plane :: "rat \<Rightarrow> env" where
  "plane eps =
     \<lparr>veq = plane_veq eps,
      too_close = plane_too_close eps,
      epsilon = eps,
      arrow_xor = plane_xor eps,
      point_at = plane_point_at,
      crosspoints = plane_crosspoints eps,
      redraw_colors = (\<lambda>ed. (\<lambda>v. v_color (vheap ed v), \<lambda>a. a_color (aheap ed a), palette ed)),
      reverse_path = (\<lambda>ed v b. ed),
      recolor_incoming = (\<lambda>ed v c. (\<lambda>v. v_color (vheap ed v), \<lambda>a. a_color (aheap ed a), palette ed)),
      swallow = (\<lambda>ed v w. ed),
      palette_new = (\<lambda>pal. (case pal of [] \<Rightarrow> (''black'', []) | c # cs \<Rightarrow> (c, cs))),
      palette_recycle = (\<lambda>c pal. c # pal),
      canvasx = (\<lambda>x. x),
      canvasy = (\<lambda>y. y),
      default_color = ''black''\<rparr>"

section \<open>Building diagrams\<close>

text \<open>
  The editor after \<^verbatim>\<open>LinkEditor.__init__\<close>: empty lists, every mode off, the R3 helper
  \<^verbatim>\<open>None\<close>, \<^verbatim>\<open>start_state\<close>.
\<close>

definition init_editor :: editor where
  "init_editor =
     \<lparr>vheap = (\<lambda>_. \<lparr>v_x = 0, v_y = 0, v_color = [], in_arrow = None, out_arrow = None\<rparr>),
      aheap = (\<lambda>_. \<lparr>a_start = 0, a_end = 0, a_color = []\<rparr>),
      vnext = 0, anext = 0, cnext = 0,
      Vertices = [], Arrows = [], Crossings = [], CrossPoints = [],
      ActiveVertex = None, state = start_state, has_focus = True, style_var = pl,
      lock_var = False, vertex_mode = False, under_mode = False,
      r1_mode = False, r2_mode = False, r3_mode = False,
      r2_crossings = [], r3_crossings = [], r3_helper_tuple = None,
      saved_crossing_data = None, cursor_attached = False, cursorx = 0, cursory = 0,
      lock_error = None, alerts = 0, warnings = [], palette = []\<rparr>"

text \<open>
  Modelled from the spec: the persistence layer (\<^verbatim>\<open>LinkManager.unpickle\<close> and its
  inverse are not part of the editor module).  It stores the flat list of vertex
  positions and colours and the arrows as pairs of vertex indices; loading builds the
  vertices and arrows and reconstructs all crossings from the geometry alone.
\<close>

definition add_vertex :: "point \<times> string \<Rightarrow> editor \<Rightarrow> editor" where
  "add_vertex pc ed =
     (let (v, ed1) = new_Vertex ed (fst pc) (snd pc) in ed1\<lparr>Vertices := Vertices ed1 @ [v]\<rparr>)"

definition add_arrow :: "nat \<times> nat \<Rightarrow> editor \<Rightarrow> editor" where
  "add_arrow se ed =
     (let s = Vertices ed ! fst se;
          (a, ed1) = new_Arrow ed s (Vertices ed ! snd se) (v_color (vheap ed s))
      in ed1\<lparr>Arrows := Arrows ed1 @ [a]\<rparr>)"

definition build :: "(point \<times> string) list \<Rightarrow> (nat \<times> nat) list \<Rightarrow> editor" where
  "build vs as = fold add_arrow as (fold add_vertex vs init_editor)"

definition recompute_crossings :: "env \<Rightarrow> editor \<Rightarrow> editor res" where
  "recompute_crossings E ed =
     bind_res (for_each (\<lambda>a. update_crossings E (Some a)) (Arrows ed) (ed\<lparr>Crossings := []\<rparr>))
       (\<lambda>ed1. Ok (update_crosspoints E ed1))"

definition pickle :: "editor \<Rightarrow> (point \<times> string) list \<times> (nat \<times> nat) list" where
  "pickle ed =
     (map (\<lambda>v. (pos ed v, v_color (vheap ed v))) (Vertices ed),
      map (\<lambda>a. (the (first_index (\<lambda>v. v = a_start (aheap ed a)) (Vertices ed)),
                 the (first_index (\<lambda>v. v = a_end (aheap ed a)) (Vertices ed))))
          (Arrows ed))"

definition unpickle :: "env \<Rightarrow> (point \<times> string) list \<times> (nat \<times> nat) list \<Rightarrow> editor res" where
  "unpickle E data = recompute_crossings E (build (fst data) (snd data))"


section \<open>Auxiliary notions for the proofs\<close>

text \<open>The editor in which a handler leaves off, whether it returned or raised.\<close>

fun final :: "('a \<Rightarrow> editor) \<Rightarrow> 'a res \<Rightarrow> editor" where
  "final f (Ok x) = f x"
| "final f (Raise e ed) = ed"

text \<open>
  What a drag step may not change: everything but the crossing lists, the
  \<^verbatim>\<open>lock_error\<close> marker and the cursor flag.
\<close>

definition drag_view :: "editor \<Rightarrow> editor" where
  "drag_view ed = ed\<lparr>Crossings := [], cnext := 0, CrossPoints := [], lock_error := None, cursor_attached := False\<rparr>"

section \<open>Concrete diagrams\<close>

definition mkv :: "rat \<Rightarrow> rat \<Rightarrow> string \<Rightarrow> aid option \<Rightarrow> aid option \<Rightarrow> vertex" where
  "mkv x y c i ou = \<lparr>v_x = x, v_y = y, v_color = c, in_arrow = i, out_arrow = ou\<rparr>"

definition mka :: "vid \<Rightarrow> vid \<Rightarrow> string \<Rightarrow> arrow" where
  "mka s e c = \<lparr>a_start = s, a_end = e, a_color = c\<rparr>"

text \<open>
  One arrow from \<open>(0, 0)\<close> to \<open>(100, 0)\<close>, in the dragging state with the diagram
  locked; the active vertex is set where the diagram is used.
\<close>

definition open_path :: editor where
  "open_path = init_editor\<lparr>
     vheap := (\<lambda>v. if v = 0 then mkv 0 0 ''red'' None (Some 0) else mkv 100 0 ''red'' (Some 0) None),
     aheap := (\<lambda>a. mka 0 1 ''red''),
     vnext := 2, anext := 1,
     Vertices := [0, 1], Arrows := [0],
     state := dragging_state, lock_var := True,
     saved_crossing_data := Some ([], [])\<rparr>"

text \<open>
  A closed component \<open>0 \<rightarrow> 1 \<rightarrow> 2 \<rightarrow> 3 \<rightarrow> 0\<close> in the shape of a bow tie, whose arrows 0 and 2
  cross at \<open>(50, 50)\<close>, and a separate arrow 4 that crosses arrow 2 at \<open>(75, 25)\<close>,
  between the start of arrow 2 and the self-crossing.  Every crossing has the over
  and under arrow that \<^verbatim>\<open>update_crossings\<close> gives it by default.
\<close>

definition bowtie_x :: editor where
  "bowtie_x = init_editor\<lparr>
     vheap := (\<lambda>v. if v = 0 then mkv 0 0 ''red'' (Some 3) (Some 0)
                 else if v = 1 then mkv 100 100 ''red'' (Some 0) (Some 1)
                 else if v = 2 then mkv 100 0 ''red'' (Some 1) (Some 2)
                 else if v = 3 then mkv 0 100 ''red'' (Some 2) (Some 3)
                 else if v = 4 then mkv 60 10 ''blue'' None (Some 4)
                 else mkv 90 40 ''blue'' (Some 4) None),
     aheap := (\<lambda>a. if a = 0 then mka 0 1 ''red''
                 else if a = 1 then mka 1 2 ''red''
                 else if a = 2 then mka 2 3 ''red''
                 else if a = 3 then mka 3 0 ''red''
                 else mka 4 5 ''blue''),
     vnext := 6, anext := 5, cnext := 2,
     Vertices := [0, 1, 2, 3, 4, 5], Arrows := [0, 1, 2, 3, 4],
     Crossings := [\<lparr>c_id = 0, over = 0, under = 2, is_virtual = False, c_loc = Some (50, 50)\<rparr>,
                   \<lparr>c_id = 1, over = 2, under = 4, is_virtual = False, c_loc = Some (75, 25)\<rparr>],
     CrossPoints := [(50, 50), (75, 25)]\<rparr>"

section \<open>Roles of arrows in the crossing list\<close>

text \<open>
  An arrow occurs as over or as under in the stored crossings (\<^verbatim>\<open>all_oriented\<close> looks at
  the under arrow of a crossing first).  \<open>role_under\<close> is the role \<^verbatim>\<open>all_oriented\<close>
  reports: under, over, or the under-mode flag for an arrow in no crossing.

  \<open>claimed_oriented\<close> follows the words of claim C4: every arrow of the path occurs
  exclusively in one role, the same for all.  Read strictly, an arrow has to occur in
  a crossing; read loosely, it only must not occur in the other role.
\<close>

definition occurs_over :: "editor \<Rightarrow> aid \<Rightarrow> bool" where
  "occurs_over ed a = list_ex (\<lambda>c. over c = a \<and> under c \<noteq> a) (Crossings ed)"

definition occurs_under :: "editor \<Rightarrow> aid \<Rightarrow> bool" where
  "occurs_under ed a = list_ex (\<lambda>c. under c = a) (Crossings ed)"

definition role_under :: "editor \<Rightarrow> aid \<Rightarrow> bool" where
  "role_under ed a =
     (if occurs_under ed a then True else if occurs_over ed a then False else under_mode ed)"

definition exclusively :: "bool \<Rightarrow> editor \<Rightarrow> bool \<Rightarrow> aid \<Rightarrow> bool" where
  "exclusively strict ed as_under a =
     (if as_under then \<not> occurs_over ed a \<and> (occurs_under ed a \<or> \<not> strict)
      else \<not> occurs_under ed a \<and> (occurs_over ed a \<or> \<not> strict))"

definition claimed_oriented :: "bool \<Rightarrow> editor \<Rightarrow> aid list \<Rightarrow> bool" where
  "claimed_oriented strict ed path =
     (list_all (exclusively strict ed True) path \<or> list_all (exclusively strict ed False) path)"

text \<open>
  The bow tie after a click has exchanged over and under at the self-crossing, and
  the same diagram in R3 mode with the vertex at \<open>(0, 100)\<close> recorded as first marker.
\<close>

definition bowtie_flip :: editor where
  "bowtie_flip = bowtie_x\<lparr>
     Crossings := [\<lparr>c_id = 0, over = 2, under = 0, is_virtual = False, c_loc = Some (50, 50)\<rparr>,
                   \<lparr>c_id = 1, over = 2, under = 4, is_virtual = False, c_loc = Some (75, 25)\<rparr>]\<rparr>"

definition bowtie_r3 :: editor where
  "bowtie_r3 = bowtie_flip\<lparr>r3_mode := True, r3_crossings := [(0, 100)]\<rparr>"

text \<open>
  The triangle of the spec's scenario: vertices \<open>(0, 0)\<close>, \<open>(10, 0)\<close>, \<open>(5, 10)\<close> joined
  cyclically, no crossings, R1 mode switched on.
\<close>

definition triangle :: editor where
  "triangle = init_editor\<lparr>
     vheap := (\<lambda>v. if v = 0 then mkv 0 0 ''red'' (Some 2) (Some 0)
                 else if v = 1 then mkv 10 0 ''red'' (Some 0) (Some 1)
                 else mkv 5 10 ''red'' (Some 1) (Some 2)),
     aheap := (\<lambda>a. if a = 0 then mka 0 1 ''red''
                 else if a = 1 then mka 1 2 ''red''
                 else mka 2 0 ''red''),
     vnext := 3, anext := 3,
     Vertices := [0, 1, 2], Arrows := [0, 1, 2],
     r1_mode := True\<rparr>"

text \<open>A handler that returned, without raising and without running forever.\<close>

fun returned :: "editor res option \<Rightarrow> bool" where
  "returned (Some (Ok ed)) = True"
| "returned r = False"

text \<open>
  The invariant of claim C1, in its words: the stored crossings are exactly the pairs
  of arrows whose segments properly intersect (\<^verbatim>\<open>Arrow.__xor__\<close> finds an intersection):
  every such pair has a crossing, and every crossing is of such a pair.
\<close>

definition proper_pairs :: "env \<Rightarrow> editor \<Rightarrow> (aid \<times> aid) list" where
  "proper_pairs E ed =
     concat (map (\<lambda>a. map (\<lambda>b. (a, b))
        (filter (\<lambda>b. a \<noteq> b \<and> arrow_xor E (vpoints ed) (seg ed a) (seg ed b) \<noteq> None)
           (Arrows ed))) (Arrows ed))"

definition crossings_exact :: "env \<Rightarrow> editor \<Rightarrow> bool" where
  "crossings_exact E ed =
     (list_all (\<lambda>(a, b). list_ex (\<lambda>c. c_contains c a \<and> c_contains c b) (Crossings ed))
        (proper_pairs E ed)
      \<and> list_all (\<lambda>c. (over c, under c) \<in> set (proper_pairs E ed)) (Crossings ed))"

text \<open>The bow tie in R1 mode.\<close>

definition bowtie_r1 :: editor where
  "bowtie_r1 = bowtie_x\<lparr>r1_mode := True\<rparr>"

text \<open>
  A path \<open>(0, 0) \<rightarrow> (100, 0) \<rightarrow> (200, 0)\<close> and a separate vertical arrow from
  \<open>(150, 50)\<close> to \<open>(150, 150)\<close>, in R3 mode with the vertex at \<open>(0, 0)\<close> recorded as first
  marker; and the editor after the click on the vertex at \<open>(200, 0)\<close>.
\<close>

definition slide :: editor where
  "slide = init_editor\<lparr>
     vheap := (\<lambda>v. if v = 0 then mkv 0 0 ''red'' None (Some 0)
                 else if v = 1 then mkv 100 0 ''red'' (Some 0) (Some 1)
                 else if v = 2 then mkv 200 0 ''red'' (Some 1) None
                 else if v = 3 then mkv 150 50 ''blue'' None (Some 2)
                 else mkv 150 150 ''blue'' (Some 2) None),
     aheap := (\<lambda>a. if a = 0 then mka 0 1 ''red''
                 else if a = 1 then mka 1 2 ''red''
                 else mka 3 4 ''blue''),
     vnext := 5, anext := 3,
     Vertices := [0, 1, 2, 3, 4], Arrows := [0, 1, 2],
     r3_mode := True, r3_crossings := [(0, 0)]\<rparr>"

definition slide1 :: editor where
  "slide1 = final id (the (single_click (plane 8) slide \<lparr>ev_x = 200, ev_y = 0\<rparr>))"

text \<open>
  A drawing state: the isolated vertex 0 at \<open>(0, 0)\<close> is active, vertex 1 at \<open>(100, 0)\<close> is
  the open start of arrow 0, and arrow 1 ends in vertex 4 at \<open>(50, 3)\<close>, three units from
  the segment between them; in \<open>meld_good\<close> vertex 4 is out of the way at \<open>(50, -20)\<close>.
  \<open>meld_bad3\<close> and \<open>meld_good3\<close> are these editors once the click at \<open>(100, 0)\<close> has set
  up the pending arrow 2 to the new vertex 5, \<open>meld_good5\<close> the editor after the splice.
\<close>

definition meld_bad :: editor where
  "meld_bad = init_editor\<lparr>
     vheap := (\<lambda>v. if v = 0 then mkv 0 0 ''red'' None None
                 else if v = 1 then mkv 100 0 ''red'' None (Some 0)
                 else if v = 2 then mkv 100 100 ''red'' (Some 0) None
                 else if v = 3 then mkv 50 (- 50) ''blue'' None (Some 1)
                 else mkv 50 3 ''blue'' (Some 1) None),
     aheap := (\<lambda>a. if a = 0 then mka 1 2 ''red'' else mka 3 4 ''blue''),
     vnext := 5, anext := 2,
     Vertices := [0, 1, 2, 3, 4], Arrows := [0, 1],
     state := drawing_state, ActiveVertex := Some 0\<rparr>"

definition meld_good :: editor where
  "meld_good = meld_bad\<lparr>vheap := (vheap meld_bad)(4 := mkv 50 (- 20) ''blue'' (Some 1) None)\<rparr>"


definition meld_good3 :: editor where
  "meld_good3 = snd (snd (extend_pending (plane 8) (meld_good\<lparr>has_focus := True\<rparr>) 0 (100, 0)))"


text \<open>
  The bow tie in R2 mode, with the self-crossing at \<open>(50, 50)\<close> already recorded as the
  first of the two crossings of the move.
\<close>

definition bowtie_r2 :: editor where
  "bowtie_r2 = bowtie_x\<lparr>r2_mode := True, r2_crossings := [(50, 50)]\<rparr>"

section \<open>A drag as a sequence of pointer moves\<close>

text \<open>
  After the click that starts a drag, every pointer move in the dragging state calls
  \<^verbatim>\<open>move_active(x, y)\<close>.  \<open>drag_steps E ed ms\<close> lists the editors after each of the moves
  \<open>ms\<close>; a step out of which an exception escapes leaves the editor as it was at the
  raise.
\<close>

fun drag_steps :: "env \<Rightarrow> editor \<Rightarrow> (rat \<times> rat) list \<Rightarrow> editor list" where
  "drag_steps E ed [] = []"
| "drag_steps E ed ((x, y) # ms) =
     final id (move_active E ed x y) # drag_steps E (final id (move_active E ed x y)) ms"


text \<open>
  A path \<open>(0, 0) \<rightarrow> (100, 0) \<rightarrow> (200, 0)\<close> and a separate arrow 2 from \<open>(50, -50)\<close> to
  \<open>(50, 50)\<close> that passes under the first arrow of the path at \<open>(50, 0)\<close>, in the start
  state with the diagram locked.  \<open>drag_x0\<close> is the editor once the click on the vertex
  at \<open>(100, 0)\<close> has started the drag, \<open>drag_xa\<close> the editor after a first pointer move
  to \<open>(100, 200)\<close>, which is taken back.
\<close>

definition drag_x :: editor where
  "drag_x = init_editor\<lparr>
     vheap := (\<lambda>v. if v = 0 then mkv 0 0 ''red'' None (Some 0)
                 else if v = 1 then mkv 100 0 ''red'' (Some 0) (Some 1)
                 else if v = 2 then mkv 200 0 ''red'' (Some 1) None
                 else if v = 3 then mkv 50 (-50) ''blue'' None (Some 2)
                 else mkv 50 50 ''blue'' (Some 2) None),
     aheap := (\<lambda>a. if a = 0 then mka 0 1 ''red''
                 else if a = 1 then mka 1 2 ''red''
                 else mka 3 4 ''blue''),
     vnext := 5, anext := 3, cnext := 1,
     Vertices := [0, 1, 2, 3, 4], Arrows := [0, 1, 2],
     Crossings := [\<lparr>c_id = 0, over = 0, under = 2, is_virtual = False, c_loc = Some (50, 0)\<rparr>],
     CrossPoints := [(50, 0)],
     lock_var := True\<rparr>"


definition drag_x0 :: editor where
  "drag_x0 = drag_x\<lparr>state := dragging_state, ActiveVertex := Some 1,
     saved_crossing_data := Some ([2], []), cursor_attached := True\<rparr>"


definition drag_xa :: editor where
  "drag_xa = set_point 1 (100, 0) (detach_cursor (set_point 1 (100, 200) drag_x0))"

section \<open>Frame lemmas\<close>

lemma drag_view_upd [simp]:
  "drag_view (ed\<lparr>Crossings := cs\<rparr>) = drag_view ed"
  "drag_view (ed\<lparr>cnext := n\<rparr>) = drag_view ed"
  "drag_view (ed\<lparr>CrossPoints := ps\<rparr>) = drag_view ed"
  "drag_view (ed\<lparr>lock_error := m\<rparr>) = drag_view ed"
  "drag_view (ed\<lparr>cursor_attached := b\<rparr>) = drag_view ed"
  by (simp_all add: drag_view_def)

lemma drag_view_fields:
  assumes "drag_view ed' = drag_view ed"
  shows "vheap ed' = vheap ed" "aheap ed' = aheap ed" "Vertices ed' = Vertices ed"
    "Arrows ed' = Arrows ed" "ActiveVertex ed' = ActiveVertex ed"
    "saved_crossing_data ed' = saved_crossing_data ed" "lock_var ed' = lock_var ed"
  using assms[THEN arg_cong, of vheap] assms[THEN arg_cong, of aheap] assms[THEN arg_cong, of Vertices]
    assms[THEN arg_cong, of Arrows] assms[THEN arg_cong, of ActiveVertex]
    assms[THEN arg_cong, of saved_crossing_data] assms[THEN arg_cong, of lock_var]
  by (simp_all add: drag_view_def)


lemma final_bind:
  "final g (bind_res r f) = (case r of Ok x \<Rightarrow> final g (f x) | Raise e ed \<Rightarrow> ed)"
  by (cases r) (simp_all add: bind_res_def)


lemma uc_loop_frame:
  "drag_view (final fst (uc_loop E this cl as ed dmg)) = drag_view ed"
proof (induction as arbitrary: ed dmg this cl)
  case Nil
  show ?case by simp
next
  case (Cons a as)
  show ?case
    by (simp add: Let_def relocate_def Cons.IH split: option.splits)
qed

lemma final_drop_damage:
  "final id (bind_res r (\<lambda>(ed', dmg). Ok ed')) = final fst r"
  by (cases r) (auto simp: bind_res_def)

lemma update_crossings_frame:
  "drag_view (final id (update_crossings E a ed)) = drag_view ed"
  by (cases a) (simp_all add: update_crossings_def final_drop_damage uc_loop_frame)


lemma final_bind_frame:
  assumes "drag_view (final g r) = drag_view ed"
    and "\<And>x. drag_view (final h (f x)) = drag_view (g x)"
  shows "drag_view (final h (bind_res r f)) = drag_view ed"
  using assms by (cases r) (simp_all add: bind_res_def)

lemma update_crosspoints_frame: "drag_view (update_crosspoints E ed) = drag_view ed"
  by (simp add: update_crosspoints_def split: prod.splits)

lemma mark_frame: "drag_view (mark p ed) = drag_view ed"
  by (simp add: mark_def)

lemma ga_crossings_frame: "drag_view (final snd (ga_crossings E ed a cs)) = drag_view ed"
  by (induction cs) (simp_all add: Let_def mark_frame split: option.splits)

lemma generic_arrow_frame: "drag_view (final snd (generic_arrow E ed a)) = drag_view ed"
  by (simp add: generic_arrow_def mark_frame ga_crossings_frame split: option.splits)

lemma verify_drag_frame: "drag_view (final snd (verify_drag E ed)) = drag_view ed"
proof (cases "ActiveVertex ed")
  case None
  then show ?thesis by (simp add: verify_drag_def)
next
  case (Some active)
  have tail: "drag_view (final snd
      (bind_res (generic_arrow E ed3 a) (\<lambda>(ok_in, ed4).
         if \<not> ok_in then Ok (False, ed4) else generic_arrow E ed4 (g ed4)))) = drag_view ed3"
    for ed3 a g
  proof (cases "generic_arrow E ed3 a")
    case (Raise e ed')
    then show ?thesis using generic_arrow_frame[of E ed3 a] by (simp add: bind_res_def)
  next
    case (Ok r)
    obtain ok ed4 where r: "r = (ok, ed4)" by (cases r)
    have "drag_view ed4 = drag_view ed3" using generic_arrow_frame[of E ed3 a] Ok r by simp
    then show ?thesis using Ok r generic_arrow_frame[of E ed4 "g ed4"] by (simp add: bind_res_def)
  qed
  have mid: "drag_view (final snd
      (bind_res (update_crossings E a ed1) (\<lambda>ed2.
         let ed3 = update_crosspoints E ed2
         in bind_res (generic_arrow E ed3 (f ed3)) (\<lambda>(ok_in, ed4).
              if \<not> ok_in then Ok (False, ed4) else generic_arrow E ed4 (g ed4))))) = drag_view ed1"
    for ed1 a f g
  proof (cases "update_crossings E a ed1")
    case (Raise e ed')
    then show ?thesis using update_crossings_frame[of E a ed1] by (simp add: bind_res_def)
  next
    case (Ok ed2)
    have "drag_view ed2 = drag_view ed1" using update_crossings_frame[of E a ed1] Ok by simp
    then show ?thesis using Ok tail[of "update_crosspoints E ed2"]
      by (simp add: bind_res_def Let_def update_crosspoints_frame)
  qed
  show ?thesis
  proof (cases "update_crossings E (in_arrow (vheap ed active)) ed")
    case (Raise e ed')
    then show ?thesis using update_crossings_frame[of E "in_arrow (vheap ed active)" ed] Some
      by (simp add: verify_drag_def bind_res_def)
  next
    case (Ok ed1)
    have "drag_view ed1 = drag_view ed"
      using update_crossings_frame[of E "in_arrow (vheap ed active)" ed] Ok by simp
    then show ?thesis
      using Ok Some mid[of "out_arrow (vheap ed1 active)" ed1 "\<lambda>ed3. in_arrow (vheap ed3 active)"
          "\<lambda>ed4. out_arrow (vheap ed4 active)"]
      by (simp add: verify_drag_def bind_res_def)
  qed
qed

lemma seg_frame:
  assumes "drag_view ed' = drag_view ed"
  shows "seg ed' = seg ed"
  using drag_view_fields[OF assms] by (intro ext) (simp add: seg_def pos_def)

lemma vpoints_frame:
  assumes "drag_view ed' = drag_view ed"
  shows "vpoints ed' = vpoints ed"
  using drag_view_fields[OF assms] by (simp add: vpoints_def pos_def)

lemma crossed_arrows_frame:
  assumes "drag_view ed' = drag_view ed"
  shows "crossed_arrows E ed' = crossed_arrows E ed"
  unfolding crossed_arrows_def seg_frame[OF assms] vpoints_frame[OF assms]
    drag_view_fields(4)[OF assms] by (rule refl)

lemma signature_frame:
  assumes "drag_view ed' = drag_view ed"
  shows "active_crossing_data E ed' = active_crossing_data E ed"
  unfolding active_crossing_data_def crossed_arrows_frame[OF assms] drag_view_fields(1,5)[OF assms]
  by (rule refl)


lemma pos_set_point: "pos (set_point v p ed) v = p"
  by (simp add: set_point_def upd_vertex_def pos_def)

lemma set_point_fields [simp]:
  "ActiveVertex (set_point v p ed) = ActiveVertex ed"
  "saved_crossing_data (set_point v p ed) = saved_crossing_data ed"
  "cursor_attached (set_point v p ed) = cursor_attached ed"
  by (simp_all add: set_point_def upd_vertex_def)


section \<open>Runs on the one-arrow diagram\<close>

lemma open_path_heap:
  "in_arrow (vheap (open_path\<lparr>ActiveVertex := w\<rparr>) 0) = None"
  "out_arrow (vheap (open_path\<lparr>ActiveVertex := w\<rparr>) 0) = Some 0"
  "in_arrow (vheap (open_path\<lparr>ActiveVertex := w\<rparr>) 1) = Some 0"
  "out_arrow (vheap (open_path\<lparr>ActiveVertex := w\<rparr>) 1) = None"
  by (simp_all add: open_path_def init_editor_def mkv_def)

lemma open_path_uc:
  "update_crossings (plane 8) None (open_path\<lparr>ActiveVertex := w\<rparr>) = Ok (open_path\<lparr>ActiveVertex := w\<rparr>)"
  "update_crossings (plane 8) (Some 0) (open_path\<lparr>ActiveVertex := w\<rparr>) = Ok (open_path\<lparr>ActiveVertex := w\<rparr>)"
  by (simp_all add: update_crossings_def bind_res_def open_path_def init_editor_def c_contains_def)

lemma open_path_ucp:
  "update_crosspoints (plane 8) (open_path\<lparr>ActiveVertex := w\<rparr>) = open_path\<lparr>ActiveVertex := w\<rparr>"
  by (simp add: update_crosspoints_def plane_def plane_crosspoints_def open_path_def init_editor_def)

lemma open_path_ga:
  "generic_arrow (plane 8) (open_path\<lparr>ActiveVertex := w\<rparr>) None = Ok (True, open_path\<lparr>ActiveVertex := w\<rparr>)"
  "generic_arrow (plane 8) (open_path\<lparr>ActiveVertex := w\<rparr>) (Some 0) = Ok (True, open_path\<lparr>ActiveVertex := w\<rparr>)"
  by (simp_all add: generic_arrow_def open_path_def init_editor_def plane_def plane_too_close_def plane_veq_def dist2_def
     seg_def pos_def mkv_def mka_def)


lemma open_path_move:
  "move_active (plane 8) (open_path\<lparr>ActiveVertex := Some 1\<rparr>) 100 50
     = Ok (set_point 1 (100, 50) (open_path\<lparr>ActiveVertex := Some 1, cursor_attached := True\<rparr>))"
  by (simp add: move_active_def move_is_ok_def active_crossing_data_def crossed_arrows_def
      List.map_filter_def set_point_def upd_vertex_def generic_vertex_def vertex_in_def
      verify_drag_def update_crossings_def update_crosspoints_def generic_arrow_def
      attach_cursor_def detach_cursor_def bind_res_def c_contains_def
      open_path_def init_editor_def plane_def plane_too_close_def plane_veq_def dist2_def
      plane_crosspoints_def seg_def pos_def mkv_def mka_def Let_def)

section \<open>C9: the genericity check of an absent arrow\<close>

text \<open>
  C9.  \<^verbatim>\<open>generic_arrow\<close> applied to \<^verbatim>\<open>None\<close> returns \<^verbatim>\<open>True\<close> and changes nothing.  Hence
  in \<^verbatim>\<open>verify_drag\<close>, for an active vertex without incoming arrow (or without outgoing
  arrow), the check of the absent arrow passes vacuously: the verdict of the drag is
  the verdict of \<^verbatim>\<open>generic_arrow\<close> on the other arrow, after the crossings of that arrow
  and the cross points have been recomputed.
\<close>

theorem generic_arrow_absent_passes:
  "generic_arrow E ed None = Ok (True, ed)
   \<and> (ActiveVertex ed = Some v \<and> in_arrow (vheap ed v) = None \<longrightarrow>
        verify_drag E ed =
          bind_res (update_crossings E (out_arrow (vheap ed v)) ed) (\<lambda>ed2.
            generic_arrow E (update_crosspoints E ed2) (out_arrow (vheap ed v))))
   \<and> (ActiveVertex ed = Some v \<and> out_arrow (vheap ed v) = None \<longrightarrow>
        verify_drag E ed =
          bind_res (update_crossings E (in_arrow (vheap ed v)) ed) (\<lambda>ed1.
            generic_arrow E (update_crosspoints E ed1) (in_arrow (vheap ed v))))"
proof (intro conjI impI)
  show none: "generic_arrow E ed None = Ok (True, ed)" for ed
    by (simp add: generic_arrow_def)
next
  assume a: "ActiveVertex ed = Some v \<and> in_arrow (vheap ed v) = None"
  have uc: "update_crossings E None ed = Ok ed" by (simp add: update_crossings_def)
  show "verify_drag E ed =
          bind_res (update_crossings E (out_arrow (vheap ed v)) ed) (\<lambda>ed2.
            generic_arrow E (update_crosspoints E ed2) (out_arrow (vheap ed v)))"
  proof (cases "update_crossings E (out_arrow (vheap ed v)) ed")
    case (Raise e ed')
    then show ?thesis using a uc by (simp add: verify_drag_def bind_res_def)
  next
    case (Ok ed2)
    have "drag_view (update_crosspoints E ed2) = drag_view ed"
      using update_crossings_frame[of E "out_arrow (vheap ed v)" ed] Ok
      by (simp add: update_crosspoints_frame)
    then have h: "vheap (update_crosspoints E ed2) = vheap ed" by (rule drag_view_fields)
    show ?thesis using a uc Ok h
      by (simp add: verify_drag_def bind_res_def Let_def generic_arrow_def)
  qed
next
  assume a: "ActiveVertex ed = Some v \<and> out_arrow (vheap ed v) = None"
  show "verify_drag E ed =
          bind_res (update_crossings E (in_arrow (vheap ed v)) ed) (\<lambda>ed1.
            generic_arrow E (update_crosspoints E ed1) (in_arrow (vheap ed v)))"
  proof (cases "update_crossings E (in_arrow (vheap ed v)) ed")
    case (Raise e ed')
    then show ?thesis using a by (simp add: verify_drag_def bind_res_def)
  next
    case (Ok ed1)
    have f1: "drag_view ed1 = drag_view ed"
      using update_crossings_frame[of E "in_arrow (vheap ed v)" ed] Ok by simp
    have h1: "vheap ed1 = vheap ed" using f1 by (rule drag_view_fields)
    have uc: "update_crossings E None ed1 = Ok ed1" by (simp add: update_crossings_def)
    define ed3 where "ed3 = update_crosspoints E ed1"
    have h3: "vheap ed3 = vheap ed"
      using f1 drag_view_fields(1)[of ed3 ed] by (simp add: ed3_def update_crosspoints_frame)
    have tail: "bind_res (generic_arrow E ed3 a) (\<lambda>(ok_in, ed4).
        if \<not> ok_in then Ok (False, ed4) else generic_arrow E ed4 (out_arrow (vheap ed4 v)))
        = generic_arrow E ed3 a" for a
    proof (cases "generic_arrow E ed3 a")
      case (Raise e ed')
      then show ?thesis by (simp add: bind_res_def)
    next
      case (Ok r)
      obtain ok ed4 where r: "r = (ok, ed4)" by (cases r)
      have "drag_view ed4 = drag_view ed3" using generic_arrow_frame[of E ed3 a] Ok r by simp
      then have "vheap ed4 = vheap ed" using drag_view_fields(1) h3 by metis
      then show ?thesis using Ok r a by (auto simp: bind_res_def generic_arrow_def)
    qed
    show ?thesis using a Ok h1 uc tail h3
      by (simp add: verify_drag_def bind_res_def Let_def ed3_def[symmetric])
  qed
qed


lemmas run_defs = open_path_def init_editor_def mkv_def mka_def plane_def plane_veq_def
  plane_too_close_def plane_xor_def vpoints_def plane_point_at_def plane_crosspoints_def dist2_def
  pos_def seg_def upd_vertex_def upd_arrow_def bind_res_def Let_def


theorem generic_arrow_absent_passes_witness:
  "ActiveVertex (open_path\<lparr>ActiveVertex := Some 0\<rparr>) = Some 0
   \<and> in_arrow (vheap (open_path\<lparr>ActiveVertex := Some 0\<rparr>) 0) = None
   \<and> ActiveVertex (open_path\<lparr>ActiveVertex := Some 1\<rparr>) = Some 1
   \<and> out_arrow (vheap (open_path\<lparr>ActiveVertex := Some 1\<rparr>) 1) = None
   \<and> verify_drag (plane 8) (open_path\<lparr>ActiveVertex := Some 0\<rparr>)
       = Ok (True, open_path\<lparr>ActiveVertex := Some 0\<rparr>)
   \<and> verify_drag (plane 8) (open_path\<lparr>ActiveVertex := Some 1\<rparr>)
       = Ok (True, open_path\<lparr>ActiveVertex := Some 1\<rparr>)"
proof -
  have h0: "ActiveVertex (open_path\<lparr>ActiveVertex := Some 0\<rparr>) = Some 0
      \<and> in_arrow (vheap (open_path\<lparr>ActiveVertex := Some 0\<rparr>) 0) = None"
    by (simp add: open_path_def init_editor_def mkv_def)
  have h1: "ActiveVertex (open_path\<lparr>ActiveVertex := Some 1\<rparr>) = Some 1
      \<and> out_arrow (vheap (open_path\<lparr>ActiveVertex := Some 1\<rparr>) 1) = None"
    by (simp add: open_path_def init_editor_def mkv_def)
  have v0: "verify_drag (plane 8) (open_path\<lparr>ActiveVertex := Some 0\<rparr>)
       = Ok (True, open_path\<lparr>ActiveVertex := Some 0\<rparr>)"
    using generic_arrow_absent_passes[of "plane 8" "open_path\<lparr>ActiveVertex := Some 0\<rparr>" 0] h0
    by (simp only: open_path_heap open_path_uc open_path_ucp open_path_ga bind_res_def res.case simp_thms)
  have v1: "verify_drag (plane 8) (open_path\<lparr>ActiveVertex := Some 1\<rparr>)
       = Ok (True, open_path\<lparr>ActiveVertex := Some 1\<rparr>)"
    using generic_arrow_absent_passes[of "plane 8" "open_path\<lparr>ActiveVertex := Some 1\<rparr>" 1] h1
    by (simp only: open_path_heap open_path_uc open_path_ucp open_path_ga bind_res_def res.case simp_thms)
  show ?thesis using h0 h1 v0 v1 by blast
qed

section \<open>A drag step in locked mode\<close>

lemma move_active_locked:
  assumes "lock_var ed" and "ActiveVertex ed = Some v"
  shows "(\<exists>d. active_crossing_data E (final id (move_active E ed x y)) = Inr d
              \<and> saved_crossing_data ed = Some d)
         \<or> pos (final id (move_active E ed x y)) v = pos ed v"
proof -
  define ed1 where "ed1 = set_point v (x, y) ed"
  have act1: "ActiveVertex ed1 = Some v" and saved1: "saved_crossing_data ed1 = saved_crossing_data ed"
    using assms by (simp_all add: ed1_def)
  obtain d1 where d1: "active_crossing_data E ed1 = Inr d1"
    using act1 by (simp add: active_crossing_data_def Let_def)
  show ?thesis
  proof (cases "Some d1 = saved_crossing_data ed")
    case False
    then have "move_active E ed x y =
        Ok (set_point v (pos ed v) (if cursor_attached ed1 then detach_cursor ed1 else ed1))"
      using assms d1 saved1 by (simp add: move_active_def move_is_ok_def Let_def ed1_def[symmetric])
    then show ?thesis by (simp add: pos_set_point)
  next
    case True
    show ?thesis
    proof (cases "generic_vertex E ed1 (Some v) (pos ed1 v)")
      case False
      then have "move_active E ed x y =
          Ok ((let ed2 = set_point v (pos ed v) ed1
               in if cursor_attached ed2 then detach_cursor ed2 else ed2)\<lparr>lock_error := Some (pos ed v)\<rparr>)"
        using assms d1 saved1 True
        by (simp add: move_active_def move_is_ok_def Let_def ed1_def[symmetric])
      then show ?thesis by (simp add: Let_def pos_def set_point_def upd_vertex_def detach_cursor_def)
    next
      case gen: True
      have ma: "move_active E ed x y =
          bind_res (verify_drag E ed1) (\<lambda>(ok, ed2).
            if \<not> ok then
              let ed3 = set_point v (pos ed v) ed2
              in Ok (if cursor_attached ed3 then detach_cursor ed3 else ed3)
            else
              let ed3 = (if \<not> cursor_attached ed2 then attach_cursor ed2 else ed2)
              in Ok (ed3\<lparr>lock_error := None\<rparr>))"
        using assms d1 saved1 True gen
        by (simp add: move_active_def move_is_ok_def Let_def ed1_def[symmetric])
      show ?thesis
      proof (cases "verify_drag E ed1")
        case (Raise e ed2)
        then have "drag_view ed2 = drag_view ed1" using verify_drag_frame[of E ed1] by simp
        then have "active_crossing_data E ed2 = Inr d1" using signature_frame d1 by metis
        then show ?thesis using True Raise ma by (simp add: bind_res_def)
      next
        case (Ok r)
        obtain ok ed2 where r: "r = (ok, ed2)" by (cases r)
        have fr: "drag_view ed2 = drag_view ed1" using verify_drag_frame[of E ed1] Ok r by simp
        show ?thesis
        proof (cases ok)
          case False
          then show ?thesis using ma Ok r
            by (simp add: bind_res_def Let_def pos_def set_point_def upd_vertex_def detach_cursor_def)
        next
          case ok: True
          have "drag_view (final id (move_active E ed x y)) = drag_view ed1"
            using ma Ok r ok fr by (simp add: bind_res_def Let_def attach_cursor_def)
          then have "active_crossing_data E (final id (move_active E ed x y)) = Inr d1"
            using signature_frame d1 by metis
          then show ?thesis using True by simp
        qed
      qed
    qed
  qed
qed




section \<open>C10: a plain click on a crossing\<close>



lemma plane_canvas: "canvasx (plane eps) x = x" "canvasy (plane eps) y = y"
  by (simp_all add: plane_def)




lemma ao_loop_eq:
  "ao_loop a cs (no, nu) =
     (no \<and> \<not> list_ex (\<lambda>c. over c = a \<and> under c \<noteq> a) cs, nu \<and> \<not> list_ex (\<lambda>c. under c = a) cs)"
  by (induction cs arbitrary: no nu) auto

lemma all_oriented_eq:
  "all_oriented ed a =
     (if occurs_over ed a \<and> occurs_under ed a then (False, None)
      else (True, Some (role_under ed a)))"
  by (auto simp: all_oriented_def ao_loop_eq occurs_over_def occurs_under_def role_under_def)

lemma op_loop_eq:
  "op_loop ed path d =
     (list_all (\<lambda>a. \<not> (occurs_over ed a \<and> occurs_under ed a)) path
      \<and> (case d of
            None \<Rightarrow> list_all (role_under ed) path \<or> list_all (\<lambda>a. \<not> role_under ed a) path
          | Some r \<Rightarrow> list_all (\<lambda>a. role_under ed a = r) path))"
proof (induction path arbitrary: d)
  case Nil
  show ?case by (simp split: option.splits)
next
  case (Cons a path)
  show ?case
    by (cases d; cases "role_under ed a") (auto simp: all_oriented_eq Cons.IH Let_def)
qed

lemma occurs_r3_crossings [simp]:
  "occurs_over (ed\<lparr>r3_crossings := xs\<rparr>) = occurs_over ed"
  "occurs_under (ed\<lparr>r3_crossings := xs\<rparr>) = occurs_under ed"
  "role_under (ed\<lparr>r3_crossings := xs\<rparr>) = role_under ed"
  by (intro ext, simp add: occurs_over_def occurs_under_def role_under_def)+

lemma oriented_path_r3_crossings [simp]:
  "oriented_path (ed\<lparr>r3_crossings := xs\<rparr>) path = oriented_path ed path"
  unfolding oriented_path_def op_loop_eq occurs_r3_crossings by (rule refl)

lemma vertex_index_r3_crossings [simp]:
  "vertex_index E (ed\<lparr>r3_crossings := xs\<rparr>) = vertex_index E ed"
  by (intro ext) (simp add: vertex_index_def pos_def)

section \<open>C4: the oriented-path precondition\<close>

text \<open>
  C4, amended.  \<^verbatim>\<open>oriented_path\<close> returns \<^verbatim>\<open>True\<close> exactly when no arrow of the path occurs in
  the crossing list both as over and as under, and all arrows of the path have the same
  role, where an arrow that occurs in no crossing has the role given by the under-mode
  flag.  When the second R3 marker is clicked and the path between the markers fails the
  precondition, the click only records the marker: every other field of the editor,
  so the whole diagram, stays as it is.
\<close>

theorem oriented_path_iff:
  "(oriented_path ed path \<longleftrightarrow>
      list_all (\<lambda>a. \<not> (occurs_over ed a \<and> occurs_under ed a)) path
      \<and> (list_all (role_under ed) path \<or> list_all (\<lambda>a. \<not> role_under ed a) path))
   \<and> (style_var ed \<noteq> smooth \<and> state ed = start_state \<and> has_focus ed \<and> r3_mode ed
        \<and> vertex_in E ed (canvasx E (ev_x ev), canvasy E (ev_y ev)) (Vertices ed)
        \<and> r3_crossings ed = [m]
        \<and> vertex_index E ed m (Vertices ed) = Some i1
        \<and> vertex_index E ed (canvasx E (ev_x ev), canvasy E (ev_y ev)) (Vertices ed) = Some i2
        \<and> get_path_btwn_verts E (ed\<lparr>r3_crossings := [m, (canvasx E (ev_x ev), canvasy E (ev_y ev))]\<rparr>)
              (Vertices ed ! i1) (Vertices ed ! i2) = Some (Inr path')
        \<and> \<not> oriented_path ed path'
      \<longrightarrow> single_click E ed ev
            = Some (Ok (ed\<lparr>r3_crossings := [m, (canvasx E (ev_x ev), canvasy E (ev_y ev))]\<rparr>)))"
proof (intro conjI impI)
  show "oriented_path ed path \<longleftrightarrow>
      list_all (\<lambda>a. \<not> (occurs_over ed a \<and> occurs_under ed a)) path
      \<and> (list_all (role_under ed) path \<or> list_all (\<lambda>a. \<not> role_under ed a) path)"
    by (simp add: oriented_path_def op_loop_eq)
next
  let ?p = "(canvasx E (ev_x ev), canvasy E (ev_y ev))"
  let ?ed1 = "ed\<lparr>r3_crossings := [m, ?p]\<rparr>"
  assume a: "style_var ed \<noteq> smooth \<and> state ed = start_state \<and> has_focus ed \<and> r3_mode ed
        \<and> vertex_in E ed ?p (Vertices ed)
        \<and> r3_crossings ed = [m]
        \<and> vertex_index E ed m (Vertices ed) = Some i1
        \<and> vertex_index E ed ?p (Vertices ed) = Some i2
        \<and> get_path_btwn_verts E ?ed1 (Vertices ed ! i1) (Vertices ed ! i2) = Some (Inr path')
        \<and> \<not> oriented_path ed path'"
  have "click_r3 E ed ?p = Some (Ok ?ed1)"
    using a by (simp add: click_r3_def Let_def)
  then show "single_click E ed ev = Some (Ok ?ed1)"
    using a by (simp add: single_click_def Let_def)
qed

text \<open>
  C4 as stated fails: in the flipped bow tie the path \<open>[3, 0]\<close> (arrow 3 in no crossing,
  arrow 0 only under) is rejected although no arrow of it occurs as over; and the path
  \<open>[1]\<close> of an arrow in no crossing is accepted although it occurs in neither role.
\<close>

theorem oriented_path_claim_counterexample:
  "oriented_path bowtie_flip [3, 0] \<noteq> claimed_oriented False bowtie_flip [3, 0]
   \<and> oriented_path bowtie_x [1] \<noteq> claimed_oriented True bowtie_x [1]"
  by (simp add: oriented_path_def all_oriented_def claimed_oriented_def exclusively_def
      occurs_over_def occurs_under_def bowtie_flip_def bowtie_x_def init_editor_def)

lemma bowtie_flip_path:
  "get_path_btwn_verts (plane 8) (bowtie_flip\<lparr>r3_mode := True, r3_crossings := xs\<rparr>) 3 1
     = Some (Inr [3, 0])"
  by (simp add: get_path_btwn_verts_def path_loop.simps bowtie_flip_def bowtie_x_def
      init_editor_def plane_def plane_veq_def dist2_def pos_def mkv_def mka_def)

lemma bowtie_r3_facts:
  "style_var bowtie_r3 \<noteq> smooth" "state bowtie_r3 = start_state" "has_focus bowtie_r3"
  "r3_mode bowtie_r3" "r3_crossings bowtie_r3 = [(0, 100)]"
  "vertex_in (plane 8) bowtie_r3 (100, 100) (Vertices bowtie_r3)"
  "vertex_index (plane 8) bowtie_r3 (0, 100) (Vertices bowtie_r3) = Some 3"
  "vertex_index (plane 8) bowtie_r3 (100, 100) (Vertices bowtie_r3) = Some 1"
  "Vertices bowtie_r3 ! 3 = 3" "Vertices bowtie_r3 ! 1 = 1"
  "\<not> oriented_path bowtie_r3 [3, 0]"
  by (simp_all add: bowtie_r3_def bowtie_flip_def bowtie_x_def init_editor_def vertex_in_def
      vertex_index_def plane_def plane_veq_def dist2_def pos_def mkv_def
      oriented_path_def all_oriented_def)

lemma bowtie_r3_path:
  "get_path_btwn_verts (plane 8) (bowtie_r3\<lparr>r3_crossings := xs\<rparr>) 3 1 = Some (Inr [3, 0])"
  using bowtie_flip_path[of xs] by (simp add: bowtie_r3_def)

theorem oriented_path_iff_witness:
  "style_var bowtie_r3 \<noteq> smooth \<and> state bowtie_r3 = start_state \<and> has_focus bowtie_r3
   \<and> r3_mode bowtie_r3 \<and> r3_crossings bowtie_r3 = [(0, 100)]
   \<and> vertex_in (plane 8) bowtie_r3 (100, 100) (Vertices bowtie_r3)
   \<and> vertex_index (plane 8) bowtie_r3 (0, 100) (Vertices bowtie_r3) = Some 3
   \<and> vertex_index (plane 8) bowtie_r3 (100, 100) (Vertices bowtie_r3) = Some 1
   \<and> get_path_btwn_verts (plane 8) (bowtie_r3\<lparr>r3_crossings := [(0, 100), (100, 100)]\<rparr>) 3 1
       = Some (Inr [3, 0])
   \<and> \<not> oriented_path bowtie_r3 [3, 0]
   \<and> \<not> list_all (role_under bowtie_r3) [3, 0]
   \<and> single_click (plane 8) bowtie_r3 \<lparr>ev_x = 100, ev_y = 100\<rparr>
       = Some (Ok (bowtie_r3\<lparr>r3_crossings := [(0, 100), (100, 100)]\<rparr>))"
proof -
  note th = oriented_path_iff[of bowtie_r3 "[3, 0]" "plane 8" "\<lparr>ev_x = 100, ev_y = 100\<rparr>"
      "(0, 100)" 3 1 "[3, 0]"]
  have iff: "oriented_path bowtie_r3 [3, 0] \<longleftrightarrow>
      list_all (\<lambda>a. \<not> (occurs_over bowtie_r3 a \<and> occurs_under bowtie_r3 a)) [3, 0]
      \<and> (list_all (role_under bowtie_r3) [3, 0] \<or> list_all (\<lambda>a. \<not> role_under bowtie_r3 a) [3, 0])"
    using th by blast
  have r: "\<not> list_all (role_under bowtie_r3) [3, 0]"
    by (simp add: role_under_def occurs_under_def occurs_over_def bowtie_r3_def bowtie_flip_def
        bowtie_x_def init_editor_def)
  have "single_click (plane 8) bowtie_r3 \<lparr>ev_x = 100, ev_y = 100\<rparr>
       = Some (Ok (bowtie_r3\<lparr>r3_crossings := [(0, 100), (100, 100)]\<rparr>))"
    using th bowtie_r3_facts bowtie_r3_path[of "[(0, 100), (100, 100)]"]
    by (simp add: plane_canvas)
  then show ?thesis
    using bowtie_r3_facts bowtie_r3_path[of "[(0, 100), (100, 100)]"] r by blast
qed

section \<open>C7: an R1-mode click where no crossing exists\<close>

text \<open>
  C7, amended.  In the triangle the R1 mode only matters for a click on a crossing,
  and there is none.  A click on no vertex and no arrow is handled as in any other
  mode: if the point is generic a new vertex is created there and the editor enters
  the drawing state, otherwise the editor alerts; no warning is shown, and the arrows
  and the empty crossing list stay as they are.
\<close>

theorem r1_click_off_crossing:
  assumes "\<not> vertex_in E triangle (canvasx E (ev_x ev), canvasy E (ev_y ev)) (Vertices triangle)"
    and "\<not> clicked_on_arrow E triangle (canvasx E (ev_x ev), canvasy E (ev_y ev))"
  shows "single_click E triangle ev =
           Some (Ok (if generic_vertex E triangle None (canvasx E (ev_x ev), canvasy E (ev_y ev))
                     then triangle\<lparr>
                            vheap := (vheap triangle)(3 :=
                              mkv (canvasx E (ev_x ev)) (canvasy E (ev_y ev))
                                (fst (palette_new E [])) None None),
                            vnext := 4, Vertices := [0, 1, 2, 3], ActiveVertex := Some 3,
                            state := drawing_state, palette := snd (palette_new E [])\<rparr>
                     else triangle\<lparr>alerts := 1\<rparr>))
         \<and> warnings (final id (the (single_click E triangle ev))) = []
         \<and> Arrows (final id (the (single_click E triangle ev))) = Arrows triangle
         \<and> Crossings (final id (the (single_click E triangle ev))) = []"
proof -
  have flags: "style_var triangle = pl" "state triangle = start_state" "has_focus triangle"
    "\<not> lock_var triangle" "CrossPoints triangle = []" "palette triangle = []"
    "vnext triangle = 3" "Vertices triangle = [0, 1, 2]" "alerts triangle = 0"
    "warnings triangle = []" "Crossings triangle = []"
    by (simp_all add: triangle_def init_editor_def)
  have sc: "single_click E triangle ev =
           Some (Ok (if generic_vertex E triangle None (canvasx E (ev_x ev), canvasy E (ev_y ev))
                     then triangle\<lparr>
                            vheap := (vheap triangle)(3 :=
                              mkv (canvasx E (ev_x ev)) (canvasy E (ev_y ev))
                                (fst (palette_new E [])) None None),
                            vnext := 4, Vertices := [0, 1, 2, 3], ActiveVertex := Some 3,
                            state := drawing_state, palette := snd (palette_new E [])\<rparr>
                     else triangle\<lparr>alerts := 1\<rparr>))"
    using assms flags
    by (simp add: single_click_def click_empty_def new_Vertex_def goto_drawing_state_def alert_def
        mkv_def Let_def split: prod.splits)
  show ?thesis unfolding sc using flags by simp
qed


text \<open>
  C7 as stated fails: the click at \<open>(100, 100)\<close> in R1 mode appends a fourth vertex and
  enters the drawing state, without any warning.
\<close>

lemma triangle_far:
  "\<not> vertex_in (plane 1) triangle (100, 100) (Vertices triangle)"
  "\<not> clicked_on_arrow (plane 1) triangle (100, 100)"
  "generic_vertex (plane 1) triangle None (100, 100)"
  by (simp_all add: vertex_in_def clicked_on_arrow_def generic_vertex_def triangle_def
      init_editor_def plane_def plane_veq_def plane_too_close_def plane_point_at_def dist2_def
      seg_def pos_def mkv_def mka_def Let_def)

theorem r1_click_claim_counterexample:
  "r1_mode triangle \<and> Crossings triangle = [] \<and> CrossPoints triangle = []
   \<and> single_click (plane 1) triangle \<lparr>ev_x = 100, ev_y = 100\<rparr>
       = Some (Ok (triangle\<lparr>
           vheap := (vheap triangle)(3 := mkv 100 100 ''black'' None None),
           vnext := 4, Vertices := [0, 1, 2, 3], ActiveVertex := Some 3,
           state := drawing_state\<rparr>))
   \<and> Vertices triangle = [0, 1, 2] \<and> state triangle = start_state \<and> warnings triangle = []"
  by (simp add: single_click_def click_empty_def new_Vertex_def goto_drawing_state_def
      vertex_in_def clicked_on_arrow_def generic_vertex_def triangle_def
      init_editor_def plane_def plane_veq_def plane_too_close_def plane_point_at_def dist2_def
      seg_def pos_def mkv_def mka_def Let_def)

lemma triangle_flags:
  "warnings triangle = []" "Vertices triangle = [0, 1, 2]" "state triangle = start_state"
  by (simp_all add: triangle_def init_editor_def)

theorem r1_click_off_crossing_witness:
  "\<not> vertex_in (plane 1) triangle (100, 100) (Vertices triangle)
   \<and> \<not> clicked_on_arrow (plane 1) triangle (100, 100)
   \<and> generic_vertex (plane 1) triangle None (100, 100)
   \<and> state (final id (the (single_click (plane 1) triangle \<lparr>ev_x = 100, ev_y = 100\<rparr>)))
       = drawing_state
   \<and> Vertices (final id (the (single_click (plane 1) triangle \<lparr>ev_x = 100, ev_y = 100\<rparr>)))
       = [0, 1, 2, 3]
   \<and> warnings (final id (the (single_click (plane 1) triangle \<lparr>ev_x = 100, ev_y = 100\<rparr>))) = []"
proof -
  have sc: "single_click (plane 1) triangle \<lparr>ev_x = 100, ev_y = 100\<rparr> =
      Some (Ok (triangle\<lparr>
                  vheap := (vheap triangle)(3 :=
                    mkv 100 100 (fst (palette_new (plane 1) [])) None None),
                  vnext := 4, Vertices := [0, 1, 2, 3], ActiveVertex := Some 3,
                  state := drawing_state, palette := snd (palette_new (plane 1) [])\<rparr>))"
    using r1_click_off_crossing[of "plane 1" "\<lparr>ev_x = 100, ev_y = 100\<rparr>"] triangle_far
    by (simp add: plane_canvas)
  show ?thesis unfolding sc using triangle_far by (simp add: triangle_flags)
qed

section \<open>Runs on the bow tie\<close>

lemmas r1_run_defs = single_click_def click_r1_def clicked_crossing_def get_over_arrow_path_def
  get_under_arrow_path_def follow_out.simps over_under_has_crossings_def c_eq_def
  r1_replace_def remove_vertex_def destroy_arrow_def same_vertex_def
  upd_vertex_def new_Vertex_def new_Arrow_def c_contains_def vertex_in_def bind_res_def
  bowtie_r1_def bowtie_x_def init_editor_def plane_def plane_veq_def dist2_def pos_def
  mkv_def mka_def Let_def

lemma bowtie_segs:
  "seg bowtie_r1 0 = ((0, 0), (100, 100))"
  "seg bowtie_r1 1 = ((100, 100), (100, 0))"
  "seg bowtie_r1 2 = ((100, 0), (0, 100))"
  "seg bowtie_r1 3 = ((0, 100), (0, 0))"
  "seg bowtie_r1 4 = ((60, 10), (90, 40))"
  by (simp_all add: seg_def pos_def bowtie_r1_def bowtie_x_def init_editor_def mkv_def mka_def)

lemma plane_xor_eval:
  "arrow_xor (plane eps) = plane_xor eps"
  by (simp add: plane_def)

lemma bowtie_vpoints:
  "vpoints bowtie_r1 = [(0, 0), (100, 100), (100, 0), (0, 100), (60, 10), (90, 40)]"
  by (simp add: vpoints_def pos_def bowtie_r1_def bowtie_x_def init_editor_def mkv_def)

lemma bowtie_proper_pairs: "proper_pairs (plane 8) bowtie_r1 = [(0, 2), (2, 0), (2, 4), (4, 2)]"
proof -
  have a: "Arrows bowtie_r1 = [0, 1, 2, 3, 4]"
    by (simp add: bowtie_r1_def bowtie_x_def init_editor_def)
  show ?thesis
    unfolding proper_pairs_def a plane_xor_eval
    apply (simp only: list.map filter.simps bowtie_segs bowtie_vpoints)
    apply (simp add: plane_xor_def plane_point_at_def dist2_def Let_def)
    done
qed


lemma proper_pairs_mem:
  "(a, b) \<in> set (proper_pairs E ed) \<longleftrightarrow>
     a \<in> set (Arrows ed) \<and> b \<in> set (Arrows ed) \<and> a \<noteq> b
     \<and> arrow_xor E (vpoints ed) (seg ed a) (seg ed b) \<noteq> None"
  by (auto simp: proper_pairs_def)

section \<open>C1: the crossing list after a mutation\<close>

text \<open>
  C1 asks that after every completed mutation the stored crossings are exactly the
  properly intersecting pairs of arrows.  The R1 move does not keep this.  In the bow
  tie the crossing list is exact.  The R1 click on the self-crossing at \<open>(50, 50)\<close>
  returns: the precondition loop files the second crossing (arrows 2 and 4) under the
  over path only, because arrow 2 ends that path, so the under path \<open>[2, 3, 0]\<close> counts
  as free and is replaced by the arrows 5 and 6 through the new vertex.  No
  \<^verbatim>\<open>update_crossings\<close> is run for the new arrows: arrow 5, from \<open>(100, 0)\<close> to
  \<open>(50, 50)\<close>, still crosses arrow 4 at its midpoint, and the crossing list is empty.
\<close>

theorem r1_leaves_crossing_unrecorded:
  "crossings_exact (plane 8) bowtie_r1
   \<and> returned (single_click (plane 8) bowtie_r1 \<lparr>ev_x = 50, ev_y = 50\<rparr>)
   \<and> Arrows (final id (the (single_click (plane 8) bowtie_r1 \<lparr>ev_x = 50, ev_y = 50\<rparr>))) = [1, 4, 5, 6]
   \<and> Crossings (final id (the (single_click (plane 8) bowtie_r1 \<lparr>ev_x = 50, ev_y = 50\<rparr>))) = []
   \<and> arrow_xor (plane 8)
         (vpoints (final id (the (single_click (plane 8) bowtie_r1 \<lparr>ev_x = 50, ev_y = 50\<rparr>))))
         (seg (final id (the (single_click (plane 8) bowtie_r1 \<lparr>ev_x = 50, ev_y = 50\<rparr>))) 5)
         (seg (final id (the (single_click (plane 8) bowtie_r1 \<lparr>ev_x = 50, ev_y = 50\<rparr>))) 4)
       = Some (1 / 2)
   \<and> \<not> crossings_exact (plane 8)
         (final id (the (single_click (plane 8) bowtie_r1 \<lparr>ev_x = 50, ev_y = 50\<rparr>)))"
proof -
  have cs: "Crossings bowtie_r1 =
      [\<lparr>c_id = 0, over = 0, under = 2, is_virtual = False, c_loc = Some (50, 50)\<rparr>,
       \<lparr>c_id = 1, over = 2, under = 4, is_virtual = False, c_loc = Some (75, 25)\<rparr>]"
    by (simp add: bowtie_r1_def bowtie_x_def init_editor_def)
  have before: "crossings_exact (plane 8) bowtie_r1"
    unfolding crossings_exact_def bowtie_proper_pairs cs by (simp add: c_contains_def)
  have ret: "returned (single_click (plane 8) bowtie_r1 \<lparr>ev_x = 50, ev_y = 50\<rparr>)"
    by (simp add: r1_run_defs)
  have arrows: "Arrows (final id (the (single_click (plane 8) bowtie_r1 \<lparr>ev_x = 50, ev_y = 50\<rparr>))) = [1, 4, 5, 6]"
    by (simp add: r1_run_defs)
  have crossings: "Crossings (final id (the (single_click (plane 8) bowtie_r1 \<lparr>ev_x = 50, ev_y = 50\<rparr>))) = []"
    by (simp add: r1_run_defs)
  have s5: "seg (final id (the (single_click (plane 8) bowtie_r1 \<lparr>ev_x = 50, ev_y = 50\<rparr>))) 5
      = ((100, 0), (50, 50))"
    by (simp add: r1_run_defs seg_def)
  have s4: "seg (final id (the (single_click (plane 8) bowtie_r1 \<lparr>ev_x = 50, ev_y = 50\<rparr>))) 4
      = ((60, 10), (90, 40))"
    by (simp add: r1_run_defs seg_def)
  have vp: "vpoints (final id (the (single_click (plane 8) bowtie_r1 \<lparr>ev_x = 50, ev_y = 50\<rparr>)))
      = [(100, 100), (100, 0), (60, 10), (90, 40), (50, 50)]"
    by (simp add: r1_run_defs vpoints_def)
  have x: "arrow_xor (plane 8) [(100, 100), (100, 0), (60, 10), (90, 40), (50, 50)]
      ((100, 0), (50, 50)) ((60, 10), (90, 40)) = Some (1 / 2)"
    by (simp add: plane_def plane_xor_def plane_point_at_def dist2_def Let_def)
  have "(5, 4) \<in> set (proper_pairs (plane 8)
      (final id (the (single_click (plane 8) bowtie_r1 \<lparr>ev_x = 50, ev_y = 50\<rparr>))))"
    unfolding proper_pairs_mem arrows vp s5 s4 x by simp
  then have after: "\<not> crossings_exact (plane 8)
         (final id (the (single_click (plane 8) bowtie_r1 \<lparr>ev_x = 50, ev_y = 50\<rparr>)))"
    unfolding crossings_exact_def crossings by (auto simp: list_all_iff)
  show ?thesis unfolding vp s5 s4 x using before ret arrows crossings after by blast
qed

section \<open>C6: the R3 helper flag\<close>

lemmas r3_run_defs = single_click_def click_r3_def vertex_index_def get_path_btwn_verts_def
  path_loop.simps oriented_path_def all_oriented_def get_vertex_set_def r3_slide_def
  remove_vertex_def destroy_arrow_def same_vertex_def goto_drawing_state_def
  upd_vertex_def c_contains_def vertex_in_def bind_res_def
  slide_def init_editor_def plane_def plane_veq_def dist2_def pos_def
  mkv_def mka_def Let_def

lemma slide_1:
  "\<exists>ed. single_click (plane 8) slide \<lparr>ev_x = 200, ev_y = 0\<rparr> = Some (Ok ed)
     \<and> state ed = drawing_state \<and> Arrows ed = [2] \<and> Vertices ed = [0, 2, 3, 4]
     \<and> ActiveVertex ed = Some 0 \<and> r3_helper_tuple ed = None"
  by (simp add: r3_run_defs)



lemmas draw_run_defs = click_drawing_def extend_pending_def extend_path_def new_Vertex_def new_Arrow_def upd_arrow_def
  generic_vertex_def generic_arrow_def update_crossings_def update_crosspoints_def
  plane_too_close_def plane_xor_def vpoints_def plane_point_at_def plane_crosspoints_def seg_def
  c_locate_def Crossing_def c_eq_def r3_helper_active_def alert_def

lemma slide_2:
  "\<exists>ed. single_click (plane 8) slide1 \<lparr>ev_x = 200, ev_y = 100\<rparr> = Some (Ok ed)
     \<and> map (\<lambda>c. (over c, under c)) (Crossings ed) = [(3, 2)]
     \<and> r3_helper_tuple ed = None"
  by (simp add: slide1_def r3_run_defs draw_run_defs)


text \<open>
  C6 asks that the first crossing recomputation after an R3 slide consults a one-shot
  helper flag that inverts the default choice of the over arrow.  The editor has the
  flag (\<^verbatim>\<open>r3_helper_tuple\<close>) and \<^verbatim>\<open>update_crossings\<close> tests it, but nothing ever sets it:
  it is \<^verbatim>\<open>None\<close> before the slide, after the slide, and after the next recomputation.
  In the run below the second marker click slides the path away (only arrow 2 is left,
  the editor is in the drawing state); the next click draws arrow 3 from \<open>(0, 0)\<close> to
  \<open>(200, 100)\<close> across arrow 2, and the crossing gets the default orientation, the
  new arrow over.
\<close>

theorem r3_helper_never_set:
  "r3_helper_tuple slide = None
   \<and> returned (single_click (plane 8) slide \<lparr>ev_x = 200, ev_y = 0\<rparr>)
   \<and> state slide1 = drawing_state \<and> Arrows slide1 = [2]
   \<and> r3_helper_tuple slide1 = None
   \<and> returned (single_click (plane 8) slide1 \<lparr>ev_x = 200, ev_y = 100\<rparr>)
   \<and> map (\<lambda>c. (over c, under c))
         (Crossings (final id (the (single_click (plane 8) slide1 \<lparr>ev_x = 200, ev_y = 100\<rparr>))))
       = [(3, 2)]
   \<and> r3_helper_tuple (final id (the (single_click (plane 8) slide1 \<lparr>ev_x = 200, ev_y = 100\<rparr>)))
       = None"
proof -
  have h0: "r3_helper_tuple slide = None" by (simp add: slide_def init_editor_def)
  obtain ed1 where e1: "single_click (plane 8) slide \<lparr>ev_x = 200, ev_y = 0\<rparr> = Some (Ok ed1)"
    and p1: "state ed1 = drawing_state" "Arrows ed1 = [2]" "r3_helper_tuple ed1 = None"
    using slide_1 by blast
  have s1: "slide1 = ed1" by (simp add: slide1_def e1)
  obtain ed2 where e2: "single_click (plane 8) slide1 \<lparr>ev_x = 200, ev_y = 100\<rparr> = Some (Ok ed2)"
    and p2: "map (\<lambda>c. (over c, under c)) (Crossings ed2) = [(3, 2)]" "r3_helper_tuple ed2 = None"
    using slide_2 by auto
  show ?thesis by (intro conjI) (simp_all add: h0 e1 e2 p2, simp_all add: s1 p1)
qed

section \<open>C5: joining the pending arrow to an open endpoint\<close>



lemma apply_colors_links [simp]:
  "a_end (aheap (apply_colors r ed) a) = a_end (aheap ed a)"
  "a_start (aheap (apply_colors r ed) a) = a_start (aheap ed a)"
  "in_arrow (vheap (apply_colors r ed) v) = in_arrow (vheap ed v)"
  "out_arrow (vheap (apply_colors r ed) v) = out_arrow (vheap ed v)"
  "state (apply_colors r ed) = state ed"
  by (simp_all add: apply_colors_def split: prod.splits)







lemmas meld_run_defs = extend_pending_def new_Vertex_def new_Arrow_def upd_vertex_def upd_arrow_def
  meld_bad_def meld_good_def init_editor_def plane_def mkv_def mka_def Let_def






lemma meld_good3_endpoint:
  "list_ex (same_vertex (plane 8) meld_good3 5) (filter (is_endpoint meld_good3) (Vertices meld_good3))"
  by (simp add: meld_good3_def meld_run_defs same_vertex_def is_endpoint_def plane_veq_def
      dist2_def pos_def)









section \<open>C2: the crossing count after a Reidemeister move\<close>

lemma bowtie_r1_run:
  "\<exists>ed. single_click (plane 8) bowtie_r1 \<lparr>ev_x = 50, ev_y = 50\<rparr> = Some (Ok ed)
     \<and> Arrows ed = [1, 4, 5, 6] \<and> Crossings ed = [] \<and> warnings ed = []"
  by (simp add: r1_run_defs)

lemma bowtie_r2_run:
  "single_click (plane 8) bowtie_r2 \<lparr>ev_x = 75, ev_y = 25\<rparr>
     = Some (Raise UnboundLocalError (bowtie_r2\<lparr>r2_crossings := [(50, 50), (75, 25)]\<rparr>))"
  by (simp add: single_click_def click_r2_def vertex_in_def bowtie_r2_def bowtie_x_def
      init_editor_def plane_def plane_veq_def dist2_def pos_def mkv_def Let_def)

lemma click_r2_Crossings: "Crossings (final id (click_r2 ed p)) = Crossings ed"
  by (simp add: click_r2_def Let_def)

text \<open>
  C2 asks that R1, R2 and R3 either succeed and lower the number of stored crossings by
  exactly 1, 2 and 2, or are rejected and leave the diagram unchanged.  The editor does
  neither for R1 and R2.  The R1 click on the self-crossing of the bow tie is accepted
  (it returns without a warning and replaces the loop), and the stored crossings drop
  from two to none: the precondition loop \<^verbatim>\<open>over_under_has_crossings\<close> files the second
  crossing under the over path only, so the under path counts as free although it
  carries that crossing.  The R2 branch never removes a crossing: whatever the editor
  and the click, it leaves the crossing list as it was, and the click that records the
  second crossing raises \<^verbatim>\<open>UnboundLocalError\<close>, which is neither a success nor a
  rejection.
\<close>

theorem reidemeister_moves_diverge:
  "(\<exists>ed. single_click (plane 8) bowtie_r1 \<lparr>ev_x = 50, ev_y = 50\<rparr> = Some (Ok ed)
       \<and> r1_mode bowtie_r1 \<and> warnings ed = []
       \<and> Arrows bowtie_r1 = [0, 1, 2, 3, 4] \<and> Arrows ed = [1, 4, 5, 6]
       \<and> length (Crossings bowtie_r1) = 2 \<and> length (Crossings ed) = 0)
   \<and> r2_mode bowtie_r2 \<and> r2_crossings bowtie_r2 = [(50, 50)]
   \<and> CrossPoints bowtie_r2 = [(50, 50), (75, 25)]
   \<and> single_click (plane 8) bowtie_r2 \<lparr>ev_x = 75, ev_y = 25\<rparr>
       = Some (Raise UnboundLocalError (bowtie_r2\<lparr>r2_crossings := [(50, 50), (75, 25)]\<rparr>))
   \<and> (\<forall>ed p. Crossings (final id (click_r2 ed p)) = Crossings ed)"
proof -
  have b: "r1_mode bowtie_r1" "Arrows bowtie_r1 = [0, 1, 2, 3, 4]" "length (Crossings bowtie_r1) = 2"
    by (simp_all add: bowtie_r1_def bowtie_x_def init_editor_def)
  have c: "r2_mode bowtie_r2" "r2_crossings bowtie_r2 = [(50, 50)]"
    "CrossPoints bowtie_r2 = [(50, 50), (75, 25)]"
    by (simp_all add: bowtie_r2_def bowtie_x_def init_editor_def)
  show ?thesis using bowtie_r1_run bowtie_r2_run click_r2_Crossings b c by auto
qed

section \<open>C3: a drag in locked mode\<close>

lemma set_point_more [simp]:
  "lock_var (set_point v p ed) = lock_var ed"
  "lock_var (detach_cursor ed) = lock_var ed"
  "ActiveVertex (detach_cursor ed) = ActiveVertex ed"
  "saved_crossing_data (detach_cursor ed) = saved_crossing_data ed"
  "lock_var (attach_cursor ed) = lock_var ed"
  "ActiveVertex (attach_cursor ed) = ActiveVertex ed"
  "saved_crossing_data (attach_cursor ed) = saved_crossing_data ed"
  by (simp_all add: set_point_def upd_vertex_def detach_cursor_def attach_cursor_def)

lemma move_active_keeps:
  "ActiveVertex (final id (move_active E ed x y)) = ActiveVertex ed
   \<and> saved_crossing_data (final id (move_active E ed x y)) = saved_crossing_data ed
   \<and> lock_var (final id (move_active E ed x y)) = lock_var ed"
proof (cases "ActiveVertex ed")
  case None
  then show ?thesis by (simp add: move_active_def)
next
  case (Some v)
  show ?thesis
  proof (cases "lock_var ed")
    case False
    then show ?thesis using Some by (simp add: move_active_def)
  next
    case lock: True
    define ed1 where "ed1 = set_point v (x, y) ed"
    have k1: "ActiveVertex ed1 = ActiveVertex ed" "saved_crossing_data ed1 = saved_crossing_data ed"
      "lock_var ed1 = lock_var ed"
      by (simp_all add: ed1_def)
    obtain d1 where d1: "active_crossing_data E ed1 = Inr d1"
      using Some k1 by (simp add: active_crossing_data_def Let_def)
    show ?thesis
    proof (cases "Some d1 = saved_crossing_data ed")
      case False
      then have "move_active E ed x y =
          Ok (set_point v (pos ed v) (if cursor_attached ed1 then detach_cursor ed1 else ed1))"
        using Some lock d1 k1 by (simp add: move_active_def move_is_ok_def Let_def ed1_def[symmetric])
      then show ?thesis using k1 by simp
    next
      case True
      show ?thesis
      proof (cases "generic_vertex E ed1 (Some v) (pos ed1 v)")
        case False
        then have "move_active E ed x y =
            Ok ((let ed2 = set_point v (pos ed v) ed1
                 in if cursor_attached ed2 then detach_cursor ed2 else ed2)\<lparr>lock_error := Some (pos ed v)\<rparr>)"
          using Some lock d1 k1 True
          by (simp add: move_active_def move_is_ok_def Let_def ed1_def[symmetric])
        then show ?thesis using k1 by (simp add: Let_def)
      next
        case gen: True
        have ma: "move_active E ed x y =
            bind_res (verify_drag E ed1) (\<lambda>(ok, ed2).
              if \<not> ok then
                let ed3 = set_point v (pos ed v) ed2
                in Ok (if cursor_attached ed3 then detach_cursor ed3 else ed3)
              else
                let ed3 = (if \<not> cursor_attached ed2 then attach_cursor ed2 else ed2)
                in Ok (ed3\<lparr>lock_error := None\<rparr>))"
          using Some lock d1 k1 True gen
          by (simp add: move_active_def move_is_ok_def Let_def ed1_def[symmetric])
        show ?thesis
        proof (cases "verify_drag E ed1")
          case (Raise e ed2)
          then have "drag_view ed2 = drag_view ed1" using verify_drag_frame[of E ed1] by simp
          then show ?thesis using drag_view_fields(5,6,7)[of ed2 ed1] k1 Raise ma
            by (simp add: bind_res_def)
        next
          case (Ok r)
          obtain ok ed2 where r: "r = (ok, ed2)" by (cases r)
          have fr: "drag_view ed2 = drag_view ed1" using verify_drag_frame[of E ed1] Ok r by simp
          show ?thesis using drag_view_fields(5,6,7)[OF fr] k1 Ok r ma
            by (simp add: bind_res_def Let_def)
        qed
      qed
    qed
  qed
qed


lemma seg_saved: "seg (ed\<lparr>saved_crossing_data := s\<rparr>) = seg ed"
  by (intro ext) (simp add: seg_def pos_def)

lemma vpoints_saved: "vpoints (ed\<lparr>saved_crossing_data := s\<rparr>) = vpoints ed"
  by (simp add: vpoints_def pos_def)

lemma crossed_arrows_saved:
  "crossed_arrows E (ed\<lparr>saved_crossing_data := s\<rparr>) = crossed_arrows E ed"
proof -
  have a: "Arrows (ed\<lparr>saved_crossing_data := s\<rparr>) = Arrows ed" by simp
  show ?thesis unfolding crossed_arrows_def seg_saved vpoints_saved a by (rule refl)
qed

lemma active_crossing_data_saved [simp]:
  "active_crossing_data E (ed\<lparr>saved_crossing_data := s\<rparr>) = active_crossing_data E ed"
proof -
  have a: "ActiveVertex (ed\<lparr>saved_crossing_data := s\<rparr>) = ActiveVertex ed"
    "vheap (ed\<lparr>saved_crossing_data := s\<rparr>) = vheap ed" by simp_all
  show ?thesis unfolding active_crossing_data_def crossed_arrows_saved a by (rule refl)
qed

lemma active_crossing_data_attach [simp]:
  "active_crossing_data E (attach_cursor ed) = active_crossing_data E ed"
  by (rule signature_frame) (simp add: drag_view_def attach_cursor_def)

lemma start_drag_locked:
  assumes "lock_var ed" and "start_drag E ed ev p = Ok ed0"
  shows "\<exists>v d. ActiveVertex ed0 = Some v \<and> lock_var ed0 \<and> state ed0 = dragging_state
           \<and> active_crossing_data E ed0 = Inr d \<and> saved_crossing_data ed0 = Some d"
proof -
  define ed1 where "ed1 = ed\<lparr>state := dragging_state\<rparr>"
  obtain i where i: "vertex_index E ed1 p (Vertices ed1) = Some i"
    using assms(2) by (auto simp: start_drag_def Let_def ed1_def split: option.splits)
  define ed2 where "ed2 = ed1\<lparr>ActiveVertex := Some (Vertices ed1 ! i)\<rparr>"
  obtain d where d: "active_crossing_data E ed2 = Inr d"
    by (auto simp: active_crossing_data_def ed2_def Let_def)
  define ed3 where "ed3 = ed2\<lparr>saved_crossing_data := Some d\<rparr>"
  have l3: "lock_var ed3" using assms(1) by (simp add: ed3_def ed2_def ed1_def)
  have "ed0 = ed3 \<or> ed0 = attach_cursor ed3"
    using assms(2) i d l3
    by (auto simp: start_drag_def Let_def ed1_def[symmetric] ed2_def[symmetric] ed3_def[symmetric]
        double_click_def split: if_splits)
  then show ?thesis
  proof
    assume "ed0 = ed3"
    then show ?thesis using d l3 by (simp add: ed3_def ed2_def ed1_def)
  next
    assume "ed0 = attach_cursor ed3"
    then show ?thesis using d l3 by (simp add: ed3_def ed2_def ed1_def) (simp add: attach_cursor_def)
  qed
qed

lemma drag_steps_length [simp]: "length (drag_steps E ed ms) = length ms"
  by (induction ms arbitrary: ed) auto

lemma drag_steps_invariant:
  assumes "lock_var ed" and "ActiveVertex ed = Some v" and "saved_crossing_data ed = Some d"
    and "k < length ms"
  shows "ActiveVertex (drag_steps E ed ms ! k) = Some v
       \<and> lock_var (drag_steps E ed ms ! k)
       \<and> saved_crossing_data (drag_steps E ed ms ! k) = Some d
       \<and> (active_crossing_data E (drag_steps E ed ms ! k) = Inr d
           \<or> pos (drag_steps E ed ms ! k) v = pos ((ed # drag_steps E ed ms) ! k) v)"
  using assms
proof (induction ms arbitrary: ed k)
  case Nil
  then show ?case by simp
next
  case (Cons m ms)
  obtain x y where m: "m = (x, y)" by (cases m)
  let ?ed' = "final id (move_active E ed x y)"
  have keep: "ActiveVertex ?ed' = Some v" "lock_var ?ed'" "saved_crossing_data ?ed' = Some d"
    using move_active_keeps[of E ed x y] Cons.prems by simp_all
  have step: "active_crossing_data E ?ed' = Inr d \<or> pos ?ed' v = pos ed v"
    using move_active_locked[of ed v E x y] Cons.prems by auto
  show ?case
  proof (cases k)
    case 0
    then show ?thesis using keep step m by simp
  next
    case (Suc j)
    then have "j < length ms" using Cons.prems by simp
    from Cons.IH[OF keep(2) keep(1) keep(3) this] show ?thesis using Suc m by simp
  qed
qed

text \<open>
  C3.  A drag in locked (Preserve diagram) mode starts with a click on a vertex \<open>v\<close> in
  the start state; the click stores the crossing signature of the in- and out-arrows of
  \<open>v\<close> as it is at that moment.  After each pointer-move step of the drag (whether the
  step returned or an exception escaped) the dragged vertex and the stored snapshot are
  still the same, and either the signature equals the snapshot taken when the drag
  began, or \<open>v\<close> is where it was before that step.
\<close>

theorem locked_drag_step:
  assumes "style_var ed \<noteq> smooth" and "state ed = start_state" and "has_focus ed"
    and "lock_var ed" and "\<not> r3_mode ed"
    and "vertex_in E ed (canvasx E (ev_x ev), canvasy E (ev_y ev)) (Vertices ed)"
    and "single_click E ed ev = Some (Ok ed0)"
    and "k < length ms"
  shows "\<exists>v d. ActiveVertex ed0 = Some v
           \<and> active_crossing_data E ed0 = Inr d \<and> saved_crossing_data ed0 = Some d
           \<and> ActiveVertex (drag_steps E ed0 ms ! k) = Some v
           \<and> saved_crossing_data (drag_steps E ed0 ms ! k) = Some d
           \<and> (active_crossing_data E (drag_steps E ed0 ms ! k) = Inr d
               \<or> pos (drag_steps E ed0 ms ! k) v = pos ((ed0 # drag_steps E ed0 ms) ! k) v)"
proof -
  have "start_drag E ed ev (canvasx E (ev_x ev), canvasy E (ev_y ev)) = Ok ed0"
    using assms(1-3,5-7) by (simp add: single_click_def Let_def)
  from start_drag_locked[OF assms(4) this]
  obtain v d where s: "ActiveVertex ed0 = Some v" "lock_var ed0"
      "active_crossing_data E ed0 = Inr d" "saved_crossing_data ed0 = Some d"
    by blast
  from drag_steps_invariant[OF s(2) s(1) s(4) assms(8), of E] s show ?thesis by blast
qed


lemmas drag_run_defs = move_active_def move_is_ok_def active_crossing_data_def crossed_arrows_def
  List.map_filter_def set_point_def upd_vertex_def generic_vertex_def vertex_in_def
  verify_drag_def update_crossings_def update_crosspoints_def generic_arrow_def
  attach_cursor_def detach_cursor_def bind_res_def c_contains_def c_eq_def c_locate_def
  Crossing_def relocate_def r3_helper_active_def mark_def vertex_index_def
  init_editor_def plane_def plane_too_close_def plane_veq_def plane_xor_def vpoints_def
  plane_point_at_def dist2_def plane_crosspoints_def seg_def pos_def mkv_def mka_def Let_def

lemma ex_half: "\<exists>a::rat. a * 2 = 1"
  by (rule exI[of _ "1 / 2"]) simp

lemma drag_x_start:
  "single_click (plane 8) drag_x \<lparr>ev_x = 100, ev_y = 0\<rparr> = Some (Ok drag_x0)"
  by (simp add: drag_x0_def single_click_def start_drag_def drag_x_def drag_run_defs ex_half)

lemma drag_x_tentative:
  "active_crossing_data (plane 8) (set_point 1 (100, 200) drag_x0) = Inr ([], [])"
  by (simp add: drag_x0_def drag_x_def drag_run_defs)

lemma drag_x_step0: "move_active (plane 8) drag_x0 100 200 = Ok drag_xa"
  by (simp add: drag_xa_def drag_x0_def drag_x_def drag_run_defs)

lemma drag_x_step1:
  "\<exists>e2. move_active (plane 8) drag_xa 100 20 = Ok e2
     \<and> pos e2 1 = (100, 20) \<and> active_crossing_data (plane 8) e2 = Inr ([2], [])"
  by (simp add: drag_xa_def drag_x0_def drag_x_def drag_run_defs ex_half)

lemma drag_x_run:
  "\<exists>e2. drag_steps (plane 8) drag_x0 [(100, 200), (100, 20)] = [drag_xa, e2]
     \<and> pos drag_xa 1 = (100, 0) \<and> pos e2 1 = (100, 20)
     \<and> active_crossing_data (plane 8) e2 = Inr ([2], [])"
proof -
  obtain e2 where e2: "move_active (plane 8) drag_xa 100 20 = Ok e2"
    and f: "pos e2 1 = (100, 20)" "active_crossing_data (plane 8) e2 = Inr ([2], [])"
    using drag_x_step1 by blast
  have "drag_steps (plane 8) drag_x0 [(100, 200), (100, 20)] = [drag_xa, e2]"
    by (simp add: drag_x_step0 e2)
  moreover have "pos drag_xa 1 = (100, 0)"
    by (simp add: drag_xa_def pos_set_point)
  ultimately show ?thesis using f by blast
qed


lemma drag_x_facts:
  "style_var drag_x \<noteq> smooth" "state drag_x = start_state" "has_focus drag_x"
  "lock_var drag_x" "\<not> r3_mode drag_x"
  "vertex_in (plane 8) drag_x (100, 0) (Vertices drag_x)"
  by (simp_all add: drag_x_def init_editor_def vertex_in_def plane_def plane_veq_def dist2_def
      pos_def mkv_def)

lemma drag_x0_facts:
  "ActiveVertex drag_x0 = Some 1" "saved_crossing_data drag_x0 = Some ([2], [])"
  "pos drag_x0 1 = (100, 0)"
  by (simp_all add: drag_x0_def drag_x_def init_editor_def pos_def mkv_def)

theorem locked_drag_step_witness:
  "style_var drag_x \<noteq> smooth \<and> state drag_x = start_state \<and> has_focus drag_x
   \<and> lock_var drag_x \<and> \<not> r3_mode drag_x
   \<and> vertex_in (plane 8) drag_x (100, 0) (Vertices drag_x)
   \<and> single_click (plane 8) drag_x \<lparr>ev_x = 100, ev_y = 0\<rparr> = Some (Ok drag_x0)
   \<and> ActiveVertex drag_x0 = Some 1
   \<and> active_crossing_data (plane 8) drag_x0 = Inr ([2], [])
   \<and> saved_crossing_data drag_x0 = Some ([2], [])
   \<and> (\<exists>e2. drag_steps (plane 8) drag_x0 [(100, 200), (100, 20)] = [drag_xa, e2]
         \<and> active_crossing_data (plane 8) (set_point 1 (100, 200) drag_x0) = Inr ([], [])
         \<and> pos drag_x0 1 = (100, 0) \<and> pos drag_xa 1 = (100, 0)
         \<and> saved_crossing_data drag_xa = Some ([2], [])
         \<and> pos e2 1 = (100, 20)
         \<and> active_crossing_data (plane 8) e2 = Inr ([2], [])
         \<and> saved_crossing_data e2 = Some ([2], []))"
proof -
  obtain e2 where run: "drag_steps (plane 8) drag_x0 [(100, 200), (100, 20)] = [drag_xa, e2]"
    and f: "pos drag_xa 1 = (100, 0)" "pos e2 1 = (100, 20)"
      "active_crossing_data (plane 8) e2 = Inr ([2], [])"
    using drag_x_run by blast
  have p: "vertex_in (plane 8) drag_x
      (canvasx (plane 8) (ev_x \<lparr>ev_x = 100, ev_y = 0\<rparr>), canvasy (plane 8) (ev_y \<lparr>ev_x = 100, ev_y = 0\<rparr>))
      (Vertices drag_x)"
    using drag_x_facts(6) by (simp add: plane_canvas)
  note t = locked_drag_step[OF drag_x_facts(1-5) p drag_x_start]
  have t0: "\<exists>v d. ActiveVertex drag_x0 = Some v
           \<and> active_crossing_data (plane 8) drag_x0 = Inr d \<and> saved_crossing_data drag_x0 = Some d
           \<and> saved_crossing_data drag_xa = Some d"
    using t[of 0 "[(100, 200), (100, 20)]", unfolded run] by auto
  have t1: "\<exists>v d. ActiveVertex drag_x0 = Some v
           \<and> active_crossing_data (plane 8) drag_x0 = Inr d \<and> saved_crossing_data drag_x0 = Some d
           \<and> saved_crossing_data e2 = Some d"
    using t[of 1 "[(100, 200), (100, 20)]", unfolded run] by auto
  have a: "active_crossing_data (plane 8) drag_x0 = Inr ([2], [])"
    "saved_crossing_data drag_xa = Some ([2], [])"
    using t0 drag_x0_facts(2) by auto
  have b: "saved_crossing_data e2 = Some ([2], [])"
    using t1 drag_x0_facts(2) by auto
  show ?thesis
    using drag_x_facts drag_x_start drag_x0_facts a b run f drag_x_tentative by blast
qed

end
